theory Spec2Isabelle
  imports Complex_Main "HOL-Library.Sublist"
begin

section \<open>The values the script computes with\<close>

text \<open>
  \<^verbatim>\<open>script.js\<close> runs in a browser: it reads the JSON value the analysis service
  answers with, tests it by truthiness, and prints parts of it into the page. This section
  embeds the fragment of ECMAScript those lines use: numbers (binary64), strings, JSON
  values, property reads, truthiness and the conversions \<^verbatim>\<open>ToString\<close> and
  \<^verbatim>\<open>ToNumber\<close>.
\<close>

subsection \<open>Numbers\<close>

text \<open>
  A number is NaN, an infinity, or a finite binary64 value, kept as the rational it denotes.
  The two zeros are one value here: the script never divides by a number and both zeros are
  falsy and print as \<^verbatim>\<open>0\<close>.
\<close>

datatype jsnum = NaN | PInf | NInf | Fin rat

definition pow2 :: "int \<Rightarrow> rat" where
  "pow2 e = (if 0 \<le> e then 2 ^ nat e else 1 / 2 ^ nat (- e))"

definition pow10 :: "int \<Rightarrow> rat" where
  "pow10 e = (if 0 \<le> e then 10 ^ nat e else 1 / 10 ^ nat (- e))"

text \<open>The number of digits of \<open>n\<close> in base \<open>b\<close>.\<close>

function ndigits :: "int \<Rightarrow> int \<Rightarrow> int" where
  "ndigits b n = (if b < 2 \<or> n \<le> 0 then 0 else 1 + ndigits b (n div b))"
  by pat_completeness auto
termination
  by (relation "measure (\<lambda>(b, n). nat n)") (auto intro: int_div_less_self)

text \<open>For \<open>0 < a\<close>, the integer \<open>d\<close> with \<open>b ^ d \<le> a < b ^ (d + 1)\<close>.\<close>

definition ilog :: "int \<Rightarrow> rat \<Rightarrow> int" where
  "ilog b a = (let (p, q) = quotient_of a;
                   d = ndigits b p - ndigits b q;
                   pw = (if 0 \<le> d then of_int b ^ nat d else 1 / of_int b ^ nat (- d))
               in if pw \<le> a then d else d - 1)"

definition round_even :: "rat \<Rightarrow> int" where
  "round_even x = (let f = \<lfloor>x\<rfloor>; r = x - of_int f
                   in if r < 1 / 2 then f else if 1 / 2 < r then f + 1
                      else if even f then f else f + 1)"

text \<open>
  Rounding a real result to binary64: 53 significant bits, least exponent \<open>-1074\<close>, ties to
  even, and an infinity when the rounded value reaches \<open>2 ^ 1024\<close>.
\<close>

definition fl :: "rat \<Rightarrow> jsnum" where
  "fl q = (if q = 0 then Fin 0
           else let a = \<bar>q\<bar>;
                    e = max (ilog 2 a - 52) (- 1074);
                    v = of_int (round_even (a / pow2 e)) * pow2 e
                in if 1024 \<le> ilog 2 v then (if q < 0 then NInf else PInf)
                   else Fin (if q < 0 then - v else v))"

text \<open>The operator \<^verbatim>\<open>*\<close> on numbers.\<close>

fun num_mul :: "jsnum \<Rightarrow> jsnum \<Rightarrow> jsnum" where
  "num_mul NaN _ = NaN"
| "num_mul _ NaN = NaN"
| "num_mul (Fin a) (Fin b) = fl (a * b)"
| "num_mul (Fin a) PInf = (if a = 0 then NaN else if 0 < a then PInf else NInf)"
| "num_mul (Fin a) NInf = (if a = 0 then NaN else if 0 < a then NInf else PInf)"
| "num_mul PInf (Fin b) = (if b = 0 then NaN else if 0 < b then PInf else NInf)"
| "num_mul NInf (Fin b) = (if b = 0 then NaN else if 0 < b then NInf else PInf)"
| "num_mul PInf PInf = PInf"
| "num_mul PInf NInf = NInf"
| "num_mul NInf PInf = NInf"
| "num_mul NInf NInf = PInf"

text \<open>
  \<^verbatim>\<open>Math.round\<close>: the nearest integer, a tie going up. The result is exact: a binary64
  value of magnitude \<open>2 ^ 52\<close> or more is an integer already.
\<close>

fun Math_round :: "jsnum \<Rightarrow> jsnum" where
  "Math_round (Fin q) = Fin (of_int \<lfloor>q + 1 / 2\<rfloor>)"
| "Math_round n = n"

subsection \<open>Printing a number\<close>

definition digit_char :: "int \<Rightarrow> char" where
  "digit_char d = char_of (48 + d)"

function dec_digits :: "int \<Rightarrow> string" where
  "dec_digits n =
     (if n < 10 then [digit_char n] else dec_digits (n div 10) @ [digit_char (n mod 10)])"
  by pat_completeness auto
termination
  by (relation "measure nat") auto

definition roundtrips :: "rat \<Rightarrow> int \<Rightarrow> int \<Rightarrow> bool" where
  "roundtrips x s e = (fl (of_int s * pow10 e) = Fin x)"

text \<open>
  \<^verbatim>\<open>Number::toString\<close> prints the shortest decimal that reads back as the number. With
  \<open>10 ^ (n - 1) \<le> x < 10 ^ n\<close>, the candidates of \<open>k\<close> digits are the two integers next to
  \<open>x / 10 ^ (n - k)\<close>; of two that read back as \<open>x\<close> the nearer one is taken, the even one on
  a tie.
\<close>

definition candidate :: "rat \<Rightarrow> int \<Rightarrow> int \<Rightarrow> int option" where
  "candidate x n k =
     (let sc = x / pow10 (n - k); lo = \<lfloor>sc\<rfloor>; hi = lo + 1;
          lo_ok = roundtrips x lo (n - k); hi_ok = roundtrips x hi (n - k);
          dl = sc - of_int lo; dh = of_int hi - sc
      in if lo_ok \<and> hi_ok then
           (if dl < dh then Some lo else if dh < dl then Some hi
            else if even lo then Some lo else Some hi)
         else if lo_ok then Some lo
         else if hi_ok then Some hi
         else None)"

fun shortest :: "rat \<Rightarrow> int \<Rightarrow> nat \<Rightarrow> int \<Rightarrow> int \<times> int" where
  "shortest x n 0 k = (\<lfloor>x / pow10 (n - k)\<rfloor>, k)"
| "shortest x n (Suc fuel) k =
     (case candidate x n k of Some s \<Rightarrow> (s, k) | None \<Rightarrow> shortest x n fuel (k + 1))"

definition zeros :: "int \<Rightarrow> string" where
  "zeros n = replicate (nat n) (CHR ''0'')"

text \<open>Seventeen digits always read back, so the search from one digit up ends by then.\<close>

definition pos_to_string :: "rat \<Rightarrow> string" where
  "pos_to_string x =
     (let n0 = ilog 10 x + 1;
          (s0, k) = shortest x n0 17 1;
          (s, n) = (if s0 = 10 ^ nat k then (10 ^ nat (k - 1), n0 + 1) else (s0, n0));
          ds = dec_digits s;
          e = n - 1
      in if k \<le> n \<and> n \<le> 21 then ds @ zeros (n - k)
         else if 0 < n \<and> n \<le> 21 then take (nat n) ds @ ''.'' @ drop (nat n) ds
         else if - 6 < n \<and> n \<le> 0 then ''0.'' @ zeros (- n) @ ds
         else (if k = 1 then ds else take 1 ds @ ''.'' @ drop 1 ds)
              @ ''e'' @ (if 0 \<le> e then ''+'' else ''-'') @ dec_digits \<bar>e\<bar>)"

fun Number_toString :: "jsnum \<Rightarrow> string" where
  "Number_toString NaN = ''NaN''"
| "Number_toString PInf = ''Infinity''"
| "Number_toString NInf = ''-Infinity''"
| "Number_toString (Fin q) =
     (if q = 0 then ''0'' else if q < 0 then ''-'' @ pos_to_string (- q) else pos_to_string q)"

subsection \<open>Strings\<close>

text \<open>
  A string is the list of the bytes of its UTF-8 encoding. The methods below follow
  ECMAScript on ASCII text, which is what the service's labels, the MIME types and the
  data URLs are.
\<close>

definition code :: "char \<Rightarrow> nat" where
  "code c = of_char c"

definition is_digit :: "char \<Rightarrow> bool" where
  "is_digit c = (48 \<le> code c \<and> code c \<le> 57)"

definition digit_val :: "char \<Rightarrow> int" where
  "digit_val c =
     (if is_digit c then int (code c) - 48
      else if 97 \<le> code c \<and> code c \<le> 102 then int (code c) - 87
      else if 65 \<le> code c \<and> code c \<le> 70 then int (code c) - 55
      else 0)"

definition is_hex_digit :: "char \<Rightarrow> bool" where
  "is_hex_digit c =
     (is_digit c \<or> (97 \<le> code c \<and> code c \<le> 102) \<or> (65 \<le> code c \<and> code c \<le> 70))"

text \<open>The value of a digit string in base \<open>b\<close>.\<close>

definition digits_value :: "int \<Rightarrow> string \<Rightarrow> int" where
  "digits_value b ds = foldl (\<lambda>a c. a * b + digit_val c) 0 ds"

text \<open>
  \<^verbatim>\<open>String.prototype.toUpperCase\<close>: the letters a to z go to A to Z, every other
  byte stays. This is the method on ASCII text (\<open>ascii\<close>); the case mapping of the
  characters beyond ASCII is not part of the model, and a statement about the upper-case
  form of a string is made for ASCII strings only.
\<close>

definition ascii :: "string \<Rightarrow> bool" where
  "ascii s = list_all (\<lambda>c. code c < 128) s"

definition upper_char :: "char \<Rightarrow> char" where
  "upper_char c = (if 97 \<le> code c \<and> code c \<le> 122 then char_of (code c - 32) else c)"

definition toUpperCase :: "string \<Rightarrow> string" where
  "toUpperCase s = map upper_char s"

text \<open>
  \<^verbatim>\<open>encodeURIComponent\<close>: letters, digits and \<^verbatim>\<open>- _ . ! ~ * ' ( )\<close> stay, every
  other byte becomes \<^verbatim>\<open>%\<close> and its two upper-case hexadecimal digits.
\<close>

definition unreserved :: "char \<Rightarrow> bool" where
  "unreserved c =
     ((65 \<le> code c \<and> code c \<le> 90) \<or> (97 \<le> code c \<and> code c \<le> 122) \<or> is_digit c
      \<or> c \<in> set [CHR ''-'', CHR ''_'', CHR ''.'', CHR ''!'', CHR ''~'', CHR ''*'', CHR 0x27,
                   CHR ''('', CHR '')''])"

definition hex_digit :: "nat \<Rightarrow> char" where
  "hex_digit n = ''0123456789ABCDEF'' ! (n mod 16)"

definition percent :: "char \<Rightarrow> string" where
  "percent c = [CHR ''%'', hex_digit (code c div 16), hex_digit (code c mod 16)]"

definition encodeURIComponent :: "string \<Rightarrow> string" where
  "encodeURIComponent s = concat (map (\<lambda>c. if unreserved c then [c] else percent c) s)"

text \<open>
  How the receiver of an \<^verbatim>\<open>application/x-www-form-urlencoded\<close> body reads a value
  back: \<^verbatim>\<open>+\<close> is a space and \<^verbatim>\<open>%\<close> with two hexadecimal digits is that byte.
\<close>

definition hex_val :: "char \<Rightarrow> nat" where
  "hex_val c = nat (digit_val c)"

fun form_decode :: "string \<Rightarrow> string" where
  "form_decode [] = []"
| "form_decode (c # cs) =
     (if c = CHR ''+'' then CHR '' '' # form_decode cs
      else if c = CHR ''%'' then
        (case cs of
           h # l # rest \<Rightarrow> char_of (16 * hex_val h + hex_val l) # form_decode rest
         | _ \<Rightarrow> c # form_decode cs)
      else c # form_decode cs)"

text \<open>
  \<^verbatim>\<open>type.match('image.*')\<close>: the pattern is not anchored and \<^verbatim>\<open>.*\<close> matches the
  empty string, so the match succeeds exactly when \<^verbatim>\<open>image\<close> occurs in the string.
\<close>

fun match_image :: "string \<Rightarrow> bool" where
  "match_image [] = False"
| "match_image (c # cs) = (prefix ''image'' (c # cs) \<or> match_image cs)"

subsection \<open>Reading a number from a string\<close>

text \<open>
  The white space and line terminators of \<^verbatim>\<open>StrWhiteSpaceChar\<close>, in UTF-8: TAB, LF,
  VT, FF, CR, SP, U+00A0, U+1680, U+2000 to U+200A, U+2028, U+2029, U+202F, U+205F, U+3000
  and U+FEFF.
\<close>

definition white_space :: "string list" where
  "white_space =
     map (\<lambda>c. [c]) [CHR 0x09, CHR 0x0A, CHR 0x0B, CHR 0x0C, CHR 0x0D, CHR 0x20]
     @ [[CHR 0xC2, CHR 0xA0], [CHR 0xE1, CHR 0x9A, CHR 0x80]]
     @ map (\<lambda>c. [CHR 0xE2, CHR 0x80, c])
         [CHR 0x80, CHR 0x81, CHR 0x82, CHR 0x83, CHR 0x84, CHR 0x85, CHR 0x86, CHR 0x87,
          CHR 0x88, CHR 0x89, CHR 0x8A, CHR 0xA8, CHR 0xA9, CHR 0xAF]
     @ [[CHR 0xE2, CHR 0x81, CHR 0x9F], [CHR 0xE3, CHR 0x80, CHR 0x80],
        [CHR 0xEF, CHR 0xBB, CHR 0xBF]]"

text \<open>The length of the white-space character \<open>s\<close> starts with, 0 when it starts with none.\<close>

definition ws_len :: "string list \<Rightarrow> string \<Rightarrow> nat" where
  "ws_len ws s = (case find (\<lambda>w. w \<noteq> [] \<and> prefix w s) ws of None \<Rightarrow> 0 | Some w \<Rightarrow> length w)"

function strip_left :: "string list \<Rightarrow> string \<Rightarrow> string" where
  "strip_left ws s = (if ws_len ws s = 0 then s else strip_left ws (drop (ws_len ws s) s))"
  by pat_completeness auto
termination
proof (relation "measure (\<lambda>(ws, s). length s)")
  show "wf (measure (\<lambda>(ws, s). length s))" by simp
next
  fix ws :: "string list" and s :: string
  assume "ws_len ws s \<noteq> 0"
  then obtain w where "find (\<lambda>w. w \<noteq> [] \<and> prefix w s) ws = Some w"
    by (auto simp: ws_len_def split: option.splits)
  then have "w \<noteq> []" and "prefix w s"
    by (auto simp: find_Some_iff)
  then have "s \<noteq> []" by auto
  with \<open>ws_len ws s \<noteq> 0\<close>
  show "((ws, drop (ws_len ws s) s), (ws, s)) \<in> measure (\<lambda>(ws, s). length s)"
    by simp
qed

definition trim :: "string \<Rightarrow> string" where
  "trim s = rev (strip_left (map rev white_space) (rev (strip_left white_space s)))"

text \<open>\<^verbatim>\<open>ExponentPart\<close>, optional: nothing, or e or E, an optional sign and digits.\<close>

definition parse_exponent :: "string \<Rightarrow> int option" where
  "parse_exponent s =
     (case s of
        [] \<Rightarrow> Some 0
      | c # r \<Rightarrow>
          if c = CHR ''e'' \<or> c = CHR ''E'' then
            (let (neg, ds) = (case r of
                                [] \<Rightarrow> (False, [])
                              | d # r' \<Rightarrow> if d = CHR ''-'' then (True, r')
                                          else if d = CHR ''+'' then (False, r')
                                          else (False, r))
             in if ds \<noteq> [] \<and> list_all is_digit ds
                then Some (if neg then - digits_value 10 ds else digits_value 10 ds)
                else None)
          else None)"

text \<open>\<^verbatim>\<open>StrUnsignedDecimalLiteral\<close>: its exact value, rounded once.\<close>

definition parse_unsigned :: "string \<Rightarrow> jsnum option" where
  "parse_unsigned s =
     (if s = ''Infinity'' then Some PInf
      else let ip = takeWhile is_digit s; r1 = dropWhile is_digit s
           in case r1 of
                [] \<Rightarrow> if ip = [] then None else Some (fl (of_int (digits_value 10 ip)))
              | c # r2 \<Rightarrow>
                  if c = CHR ''.'' then
                    (let fp = takeWhile is_digit r2; r3 = dropWhile is_digit r2
                     in if ip = [] \<and> fp = [] then None
                        else (case parse_exponent r3 of
                                None \<Rightarrow> None
                              | Some e \<Rightarrow>
                                  Some (fl (of_int (digits_value 10 (ip @ fp))
                                            * pow10 (e - int (length fp))))))
                  else if ip = [] then None
                  else (case parse_exponent r1 of
                          None \<Rightarrow> None
                        | Some e \<Rightarrow> Some (fl (of_int (digits_value 10 ip) * pow10 e))))"

text \<open>\<^verbatim>\<open>NonDecimalIntegerLiteral\<close>: 0x, 0o or 0b (in either case) and digits of that base.\<close>

definition parse_radix :: "string \<Rightarrow> jsnum option" where
  "parse_radix s =
     (case s of
        z # x # ds \<Rightarrow>
          if z = CHR ''0'' \<and> ds \<noteq> [] then
            (if (x = CHR ''x'' \<or> x = CHR ''X'') \<and> list_all is_hex_digit ds
               then Some (fl (of_int (digits_value 16 ds)))
             else if (x = CHR ''o'' \<or> x = CHR ''O'')
                     \<and> list_all (\<lambda>c. is_digit c \<and> code c \<le> 55) ds
               then Some (fl (of_int (digits_value 8 ds)))
             else if (x = CHR ''b'' \<or> x = CHR ''B'')
                     \<and> list_all (\<lambda>c. c = CHR ''0'' \<or> c = CHR ''1'') ds
               then Some (fl (of_int (digits_value 2 ds)))
             else None)
          else None
      | _ \<Rightarrow> None)"

fun num_neg :: "jsnum \<Rightarrow> jsnum" where
  "num_neg NaN = NaN"
| "num_neg PInf = NInf"
| "num_neg NInf = PInf"
| "num_neg (Fin q) = Fin (- q)"

text \<open>
  \<^verbatim>\<open>StringToNumber\<close>: the trimmed string is empty (zero), a radix literal, or a decimal
  literal with an optional sign; anything else is NaN.
\<close>

definition StringToNumber :: "string \<Rightarrow> jsnum" where
  "StringToNumber str =
     (let s = trim str
      in if s = [] then Fin 0
         else case parse_radix s of
                Some n \<Rightarrow> n
              | None \<Rightarrow>
                  (case (if hd s = CHR ''-'' then map_option num_neg (parse_unsigned (tl s))
                         else if hd s = CHR ''+'' then parse_unsigned (tl s)
                         else parse_unsigned s) of
                     Some n \<Rightarrow> n
                   | None \<Rightarrow> NaN))"

subsection \<open>JSON values\<close>

text \<open>
  What \<^verbatim>\<open>response.json()\<close> yields, and \<^verbatim>\<open>undefined\<close> for a property that is not
  there. An object is the list of its own properties (the keys are distinct); none of its
  values is a function.
\<close>

datatype jv =
    JUndefined
  | JNull
  | JBool bool
  | JNum jsnum
  | JStr string
  | JArr "jv list"
  | JObj "(string \<times> jv) list"

datatype js_error = TypeError | SyntaxError | DOMException string

definition and_then :: "js_error + 'a \<Rightarrow> ('a \<Rightarrow> js_error + 'b) \<Rightarrow> js_error + 'b" where
  "and_then r f = (case r of Inl e \<Rightarrow> Inl e | Inr x \<Rightarrow> f x)"

text \<open>
  Reading a property \<^verbatim>\<open>v.k\<close>, for the names the script reads (none of them is a
  property of a prototype): a TypeError on \<^verbatim>\<open>undefined\<close> and \<^verbatim>\<open>null\<close>, the own
  property of an object, and \<^verbatim>\<open>undefined\<close> otherwise.
\<close>

fun js_get :: "jv \<Rightarrow> string \<Rightarrow> js_error + jv" where
  "js_get JUndefined k = Inl TypeError"
| "js_get JNull k = Inl TypeError"
| "js_get (JObj fs) k = Inr (case map_of fs k of None \<Rightarrow> JUndefined | Some v \<Rightarrow> v)"
| "js_get v k = Inr JUndefined"

fun truthy :: "jv \<Rightarrow> bool" where
  "truthy JUndefined = False"
| "truthy JNull = False"
| "truthy (JBool b) = b"
| "truthy (JNum n) = (n \<noteq> NaN \<and> n \<noteq> Fin 0)"
| "truthy (JStr s) = (s \<noteq> [])"
| "truthy (JArr vs) = True"
| "truthy (JObj fs) = True"

text \<open>The operator \<^verbatim>\<open>||\<close>.\<close>

definition js_or :: "jv \<Rightarrow> jv \<Rightarrow> jv" where
  "js_or a b = (if truthy a then a else b)"

fun join :: "string \<Rightarrow> string list \<Rightarrow> string" where
  "join sep [] = []"
| "join sep [x] = x"
| "join sep (x # y # ys) = x @ sep @ join sep (y # ys)"

text \<open>
  \<^verbatim>\<open>ToString\<close>. An array prints its elements joined by commas, \<^verbatim>\<open>null\<close> and
  \<^verbatim>\<open>undefined\<close> elements as nothing. An object prints as \<^verbatim>\<open>[object Object]\<close> through
  \<^verbatim>\<open>Object.prototype.toString\<close>; one with an own property \<^verbatim>\<open>toString\<close> (which is
  not a function) has no primitive value, and the conversion throws.
\<close>

fun ToString :: "jv \<Rightarrow> js_error + string"
  and element_strings :: "jv list \<Rightarrow> js_error + string list" where
  "ToString JUndefined = Inr ''undefined''"
| "ToString JNull = Inr ''null''"
| "ToString (JBool b) = Inr (if b then ''true'' else ''false'')"
| "ToString (JNum n) = Inr (Number_toString n)"
| "ToString (JStr s) = Inr s"
| "ToString (JArr vs) =
     (case element_strings vs of Inl e \<Rightarrow> Inl e | Inr ss \<Rightarrow> Inr (join '','' ss))"
| "ToString (JObj fs) =
     (if map_of fs ''toString'' \<noteq> None then Inl TypeError else Inr ''[object Object]'')"
| "element_strings [] = Inr []"
| "element_strings (v # vs) =
     (case (if v = JUndefined \<or> v = JNull then Inr [] else ToString v) of
        Inl e \<Rightarrow> Inl e
      | Inr s \<Rightarrow> (case element_strings vs of Inl e \<Rightarrow> Inl e | Inr ss \<Rightarrow> Inr (s # ss)))"

text \<open>\<^verbatim>\<open>ToNumber\<close>: an array or an object goes through its string.\<close>

fun ToNumber :: "jv \<Rightarrow> js_error + jsnum" where
  "ToNumber JUndefined = Inr NaN"
| "ToNumber JNull = Inr (Fin 0)"
| "ToNumber (JBool b) = Inr (Fin (if b then 1 else 0))"
| "ToNumber (JNum n) = Inr n"
| "ToNumber (JStr s) = Inr (StringToNumber s)"
| "ToNumber v = and_then (ToString v) (\<lambda>s. Inr (StringToNumber s))"

text \<open>
  The value a DOM attribute of type \<^verbatim>\<open>DOMString?\<close> (\<^verbatim>\<open>textContent\<close>) takes from a
  script value.
\<close>

definition DOMString :: "jv \<Rightarrow> js_error + string" where
  "DOMString v = (if v = JUndefined \<or> v = JNull then Inr [] else ToString v)"

subsection \<open>Looking at a response\<close>

text \<open>
  For stating what the script does with a response: the value of a property (\<^verbatim>\<open>undefined\<close>
  where it cannot be read), whether a value is neither \<^verbatim>\<open>undefined\<close> nor \<^verbatim>\<open>null\<close>,
  whether it has a string, and that string.
\<close>

definition field :: "jv \<Rightarrow> string \<Rightarrow> jv" where
  "field v k = (case js_get v k of Inl e \<Rightarrow> JUndefined | Inr x \<Rightarrow> x)"

definition present :: "jv \<Rightarrow> bool" where
  "present v = (v \<noteq> JUndefined \<and> v \<noteq> JNull)"

definition printable :: "jv \<Rightarrow> bool" where
  "printable v = (case ToString v of Inl e \<Rightarrow> False | Inr s \<Rightarrow> True)"

definition string_of :: "jv \<Rightarrow> string" where
  "string_of v = (case ToString v of Inl e \<Rightarrow> [] | Inr s \<Rightarrow> s)"

section \<open>The page\<close>

text \<open>
  The elements \<^verbatim>\<open>script.js\<close> looks up by id (lines 3 to 12), with the attributes it
  reads and writes, its two variables \<^verbatim>\<open>isCameraActive\<close> and \<^verbatim>\<open>stream\<close> (lines
  15 and 16), and what it asks of the browser. Every element is taken to be in the page.
  \<^item> A media stream is the list of its tracks; \<open>live_tracks\<close> are the tracks of the device
    that have been started and not stopped.
  \<^item> \<open>videoWidth\<close>, \<open>videoHeight\<close> and \<open>video_frame\<close> are what the video element
    reports and shows: 0 by 0 until the stream has delivered a frame. A frame and the
    canvas's bitmap are kept as the JPEG data URL the browser serialises them to.
  \<^item> \<open>video_play_calls\<close> and \<open>resultContainer_scrolls\<close> count the calls of
    \<^verbatim>\<open>video.play()\<close> and \<^verbatim>\<open>scrollIntoView\<close>.
  \<^item> \<open>mediaDevices_supported\<close> is the test of line 73; \<open>camera_prompts\<close> counts the
    promises of \<^verbatim>\<open>getUserMedia\<close> that have not settled.
  \<^item> \<open>requests\<close> are the calls of \<^verbatim>\<open>fetch\<close>, oldest first; \<open>in_flight\<close> counts
    those whose promise has not settled; \<open>console\<close> are the calls of
    \<^verbatim>\<open>console.error\<close>.
\<close>

type_synonym media_stream = "nat list"

record js_file =
  file_name :: string
  file_type :: string
  file_bytes :: string

datatype req_body = FormData "(string \<times> js_file) list" | Text string

record request =
  url :: string
  http_method :: string
  headers :: "(string \<times> string) list"
  body :: req_body

record ui =
  isCameraActive :: bool
  stream :: "media_stream option"
  video_srcObject :: "media_stream option"
  video_play_calls :: nat
  videoWidth :: nat
  videoHeight :: nat
  video_frame :: string
  canvas_width :: nat
  canvas_height :: nat
  canvas_bitmap :: string
  cameraContainer_classList :: "string list"
  captureButton_classList :: "string list"
  captureButton_textContent :: string
  resultContainer_classList :: "string list"
  resultContainer_innerHTML :: string
  resultContainer_scrolls :: nat
  loadingSpinner_classList :: "string list"
  errorMessage_classList :: "string list"
  errorMessage_textContent :: string
  live_tracks :: "nat list"
  mediaDevices_supported :: bool
  camera_prompts :: nat
  requests :: "request list"
  in_flight :: nat
  console :: "(string \<times> js_error) list"

text \<open>
  \<^verbatim>\<open>classList.add\<close> and \<^verbatim>\<open>classList.remove\<close>: a class list holds a class once.
\<close>

definition classList_add :: "string \<Rightarrow> string list \<Rightarrow> string list" where
  "classList_add c cs = (if c \<in> set cs then cs else cs @ [c])"

definition classList_remove :: "string \<Rightarrow> string list \<Rightarrow> string list" where
  "classList_remove c cs = removeAll c cs"

text \<open>An element is shown unless it carries the class \<^verbatim>\<open>d-none\<close>.\<close>

definition visible :: "string list \<Rightarrow> bool" where
  "visible cs = (''d-none'' \<notin> set cs)"

section \<open>The script\<close>

subsection \<open>Showing and hiding\<close>

text \<open>\<^verbatim>\<open>showLoading\<close> and \<^verbatim>\<open>hideLoading\<close>, lines 233 to 242 of \<^verbatim>\<open>script.js\<close>.\<close>

definition showLoading :: "ui \<Rightarrow> ui" where
  "showLoading s =
     s\<lparr>loadingSpinner_classList := classList_remove ''d-none'' (loadingSpinner_classList s),
       errorMessage_classList := classList_add ''d-none'' (errorMessage_classList s),
       resultContainer_classList := classList_add ''d-none'' (resultContainer_classList s)\<rparr>"

definition hideLoading :: "ui \<Rightarrow> ui" where
  "hideLoading s =
     s\<lparr>loadingSpinner_classList := classList_add ''d-none'' (loadingSpinner_classList s)\<rparr>"

text \<open>
  \<^verbatim>\<open>showError\<close>, lines 245 to 249. A function of the script returns the state it leaves
  and the exception it throws, if any: the state is the one reached when the exception was
  thrown. Here only the assignment to \<^verbatim>\<open>textContent\<close> can throw, after the loading
  indicator was hidden.
\<close>

definition showError :: "jv \<Rightarrow> ui \<Rightarrow> js_error option \<times> ui" where
  "showError message s =
     (let s1 = hideLoading s
      in case DOMString message of
           Inl e \<Rightarrow> (Some e, s1)
         | Inr content \<Rightarrow>
             (None, s1\<lparr>errorMessage_textContent := content,
                        errorMessage_classList :=
                          classList_remove ''d-none'' (errorMessage_classList s1)\<rparr>))"

subsection \<open>The camera\<close>

text \<open>
  \<^verbatim>\<open>startCamera\<close>, lines 72 to 94: with \<^verbatim>\<open>navigator.mediaDevices.getUserMedia\<close> there, a camera
  prompt is opened and its promise is left to settle; without it, the message is shown.
\<close>

definition startCamera :: "ui \<Rightarrow> ui" where
  "startCamera s =
     (if mediaDevices_supported s then s\<lparr>camera_prompts := Suc (camera_prompts s)\<rparr>
      else snd (showError
        (JStr ''Your browser does not support camera access. Please use the file upload option.'')
        s))"

text \<open>
  The assignment \<^verbatim>\<open>video.srcObject = v\<close>, as the browser has it: the element loads anew
  and reports 0 by 0, with no frame, until the stream it is given delivers one.
\<close>

definition set_srcObject :: "media_stream option \<Rightarrow> ui \<Rightarrow> ui" where
  "set_srcObject v s =
     s\<lparr>video_srcObject := v, videoWidth := 0, videoHeight := 0, video_frame := []\<rparr>"

text \<open>
  The two callbacks on the promise of \<^verbatim>\<open>getUserMedia\<close>, lines 75 to 90. \<^verbatim>\<open>video.play()\<close>
  is counted; the promise it returns is not used.
\<close>

definition getUserMedia_then :: "media_stream \<Rightarrow> ui \<Rightarrow> ui" where
  "getUserMedia_then mediaStream s =
     (let s1 = set_srcObject (Some mediaStream) (s\<lparr>stream := Some mediaStream\<rparr>)
      in s1\<lparr>video_play_calls := Suc (video_play_calls s1),
            isCameraActive := True,
            cameraContainer_classList :=
              classList_remove ''d-none'' (cameraContainer_classList s1),
            captureButton_textContent := ''Cancel'',
            captureButton_classList :=
              classList_add ''btn-danger''
                (classList_remove ''btn-primary'' (captureButton_classList s1))\<rparr>)"

definition getUserMedia_catch :: "js_error \<Rightarrow> ui \<Rightarrow> ui" where
  "getUserMedia_catch err s =
     snd (showError
       (JStr ''Could not access the camera. Please check permissions or use the file upload option.'')
       (s\<lparr>console := console s @ [(''Error accessing camera: '', err)]\<rparr>))"

text \<open>
  \<^verbatim>\<open>stopCamera\<close>, lines 97 to 111: every track of the stream held is stopped, the video is
  detached and the variable cleared; then, stream or not, the camera is marked inactive, its
  region hidden and the button reset.
\<close>

definition stopCamera :: "ui \<Rightarrow> ui" where
  "stopCamera s =
     (let s1 = (case stream s of
                  None \<Rightarrow> s
                | Some tracks \<Rightarrow>
                    (set_srcObject None
                       (s\<lparr>live_tracks := filter (\<lambda>t. t \<notin> set tracks) (live_tracks s)\<rparr>))
                    \<lparr>stream := None\<rparr>)
      in s1\<lparr>isCameraActive := False,
            cameraContainer_classList := classList_add ''d-none'' (cameraContainer_classList s1),
            captureButton_textContent := ''Use Camera'',
            captureButton_classList :=
              classList_add ''btn-primary''
                (classList_remove ''btn-danger'' (captureButton_classList s1))\<rparr>)"

text \<open>
  \<^verbatim>\<open>capturePhoto\<close>, lines 114 to 126: the canvas takes the size of the video, the frame
  is drawn, and the canvas is serialised. The canvas, as the browser has it:
  \<^verbatim>\<open>drawImage\<close> copies the video's frame and throws nothing when there is none, and \<^verbatim>\<open>toDataURL\<close> of a canvas with no pixels is the
  string \<^verbatim>\<open>data:,\<close>.
\<close>

definition canvas_toDataURL :: "ui \<Rightarrow> string" where
  "canvas_toDataURL s =
     (if canvas_width s = 0 \<or> canvas_height s = 0 then ''data:,'' else canvas_bitmap s)"

definition capturePhoto :: "ui \<Rightarrow> string \<times> ui" where
  "capturePhoto s =
     (let s1 = s\<lparr>canvas_width := videoWidth s, canvas_height := videoHeight s\<rparr>;
          s2 = s1\<lparr>canvas_bitmap := video_frame s1\<rparr>
      in (canvas_toDataURL s2, s2))"

subsection \<open>Sending an image\<close>

text \<open>
  \<^verbatim>\<open>fetch\<close> sends the request and returns a promise: the request is recorded and counted as
  open. \<^verbatim>\<open>processImageFile\<close> (lines 129 to 136) and \<^verbatim>\<open>processImageData\<close> (lines 146 to
  153) build the two requests.
\<close>

definition fetch :: "request \<Rightarrow> ui \<Rightarrow> ui" where
  "fetch r s = s\<lparr>requests := requests s @ [r], in_flight := Suc (in_flight s)\<rparr>"

definition processImageFile :: "js_file \<Rightarrow> ui \<Rightarrow> ui" where
  "processImageFile f s =
     fetch \<lparr>url = ''/analyze'', http_method = ''POST'', headers = [],
            body = FormData [(''image'', f)]\<rparr> s"

definition processImageData :: "string \<Rightarrow> ui \<Rightarrow> ui" where
  "processImageData imageData s =
     fetch \<lparr>url = ''/analyze'', http_method = ''POST'',
            headers = [(''Content-Type'', ''application/x-www-form-urlencoded'')],
            body = Text (''image_data='' @ encodeURIComponent imageData)\<rparr> s"

subsection \<open>The answer\<close>

text \<open>
  What the template literal of \<^verbatim>\<open>handleAnalysisResult\<close> prints: the strings of its
  nine substitutions, in the order they stand in.
\<close>

record presentation =
  p_image :: string
  p_label :: string
  p_description :: string
  p_face_height :: string
  p_face_width_top :: string
  p_face_width_middle :: string
  p_face_width_bottom :: string
  p_ratio :: string
  p_confidence :: string

text \<open>The template literal, line by line.\<close>

definition result_template :: "presentation \<Rightarrow> string" where
  \<open>result_template p =
     ''\<newline>'' @
     ''            <div class="card mb-4">\<newline>'' @
     ''                <div class="card-header">\<newline>'' @
     ''                    <h3 class="mb-0">Face Shape Analysis Result</h3>\<newline>'' @
     ''                </div>\<newline>'' @
     ''                <div class="card-body">\<newline>'' @
     ''                    <div class="row">\<newline>'' @
     ''                        <div class="col-md-6">\<newline>'' @
     ''                            <img src="'' @ p_image p @ ''" alt="Face with landmarks" class="img-fluid mb-3">\<newline>'' @
     ''                        </div>\<newline>'' @
     ''                        <div class="col-md-6">\<newline>'' @
     ''                            <h4 class="text-primary">Your Face Shape: <span class="badge bg-primary">'' @ p_label p @ ''</span></h4>\<newline>'' @
     ''                            <p>'' @ p_description p @ ''</p>\<newline>'' @
     ''                            \<newline>'' @
     ''                            <h5 class="mt-4">Face Measurements:</h5>\<newline>'' @
     ''                            <ul class="list-group">\<newline>'' @
     ''                                <li class="list-group-item d-flex justify-content-between align-items-center">\<newline>'' @
     ''                                    Face Height\<newline>'' @
     ''                                    <span class="badge bg-secondary rounded-pill">'' @ p_face_height p @ ''</span>\<newline>'' @
     ''                                </li>\<newline>'' @
     ''                                <li class="list-group-item d-flex justify-content-between align-items-center">\<newline>'' @
     ''                                    Forehead Width\<newline>'' @
     ''                                    <span class="badge bg-secondary rounded-pill">'' @ p_face_width_top p @ ''</span>\<newline>'' @
     ''                                </li>\<newline>'' @
     ''                                <li class="list-group-item d-flex justify-content-between align-items-center">\<newline>'' @
     ''                                    Cheekbone Width\<newline>'' @
     ''                                    <span class="badge bg-secondary rounded-pill">'' @ p_face_width_middle p @ ''</span>\<newline>'' @
     ''                                </li>\<newline>'' @
     ''                                <li class="list-group-item d-flex justify-content-between align-items-center">\<newline>'' @
     ''                                    Jawline Width\<newline>'' @
     ''                                    <span class="badge bg-secondary rounded-pill">'' @ p_face_width_bottom p @ ''</span>\<newline>'' @
     ''                                </li>\<newline>'' @
     ''                                <li class="list-group-item d-flex justify-content-between align-items-center">\<newline>'' @
     ''                                    Width-to-Height Ratio\<newline>'' @
     ''                                    <span class="badge bg-secondary rounded-pill">'' @ p_ratio p @ ''</span>\<newline>'' @
     ''                                </li>\<newline>'' @
     ''                            </ul>\<newline>'' @
     ''                            \<newline>'' @
     ''                            <div class="alert alert-info mt-3">\<newline>'' @
     ''                                <strong>Analysis Confidence:</strong> '' @ p_confidence p @ ''%\<newline>'' @
     ''                            </div>\<newline>'' @
     ''                        </div>\<newline>'' @
     ''                    </div>\<newline>'' @
     ''                </div>\<newline>'' @
     ''            </div>\<newline>'' @
     ''        ''\<close>

text \<open>
  \<^verbatim>\<open>data.face_shape.toUpperCase()\<close>: only a string has the method; on every other
  value the read or the call throws.
\<close>

definition call_toUpperCase :: "jv \<Rightarrow> js_error + string" where
  "call_toUpperCase v = (case v of JStr s \<Rightarrow> Inr (toUpperCase s) | _ \<Rightarrow> Inl TypeError)"

definition measurement :: "jv \<Rightarrow> string \<Rightarrow> js_error + string" where
  "measurement data k =
     and_then (and_then (js_get data ''measurements'') (\<lambda>m. js_get m k)) ToString"

definition confidence_percent :: "jv \<Rightarrow> js_error + string" where
  "confidence_percent data =
     and_then (and_then (js_get data ''confidence'') ToNumber)
       (\<lambda>c. Inr (Number_toString (Math_round (num_mul c (Fin 100)))))"

text \<open>The substitutions are evaluated and printed in the order they stand in.\<close>

definition render_result :: "jv \<Rightarrow> js_error + string" where
  "render_result data =
     and_then (and_then (js_get data ''image_with_landmarks'') ToString) (\<lambda>img.
     and_then (and_then (js_get data ''face_shape'') call_toUpperCase) (\<lambda>shape.
     and_then (and_then (js_get data ''description'') ToString) (\<lambda>descr.
     and_then (measurement data ''face_height'') (\<lambda>fh.
     and_then (measurement data ''face_width_top'') (\<lambda>ft.
     and_then (measurement data ''face_width_middle'') (\<lambda>fm.
     and_then (measurement data ''face_width_bottom'') (\<lambda>fb.
     and_then (measurement data ''width_to_height_ratio'') (\<lambda>ratio.
     and_then (confidence_percent data) (\<lambda>conf.
       Inr (result_template
              \<lparr>p_image = img, p_label = shape, p_description = descr, p_face_height = fh,
               p_face_width_top = ft, p_face_width_middle = fm, p_face_width_bottom = fb,
               p_ratio = ratio, p_confidence = conf\<rparr>))))))))))"

text \<open>
  \<^verbatim>\<open>handleAnalysisResult\<close>, lines 163 to 230: the loading indicator is hidden; a truthy
  \<^verbatim>\<open>data.error\<close> is shown; else a falsy \<^verbatim>\<open>data.success\<close> shows \<^verbatim>\<open>data.message\<close> or the
  fixed text; else the template is evaluated and, when that has not thrown, written into
  the result region, which is shown and scrolled to.
\<close>

definition handleAnalysisResult :: "jv \<Rightarrow> ui \<Rightarrow> js_error option \<times> ui" where
  "handleAnalysisResult data s =
     (let s1 = hideLoading s
      in case js_get data ''error'' of
           Inl e \<Rightarrow> (Some e, s1)
         | Inr err \<Rightarrow>
             if truthy err then showError err s1
             else (case js_get data ''success'' of
                     Inl e \<Rightarrow> (Some e, s1)
                   | Inr success \<Rightarrow>
                       if \<not> truthy success then
                         (case js_get data ''message'' of
                            Inl e \<Rightarrow> (Some e, s1)
                          | Inr message \<Rightarrow>
                              showError
                                (js_or message
                                   (JStr ''An unknown error occurred during face analysis.''))
                                s1)
                       else (case render_result data of
                               Inl e \<Rightarrow> (Some e, s1)
                             | Inr html \<Rightarrow>
                                 (None,
                                  s1\<lparr>resultContainer_innerHTML := html,
                                     resultContainer_classList :=
                                       classList_remove ''d-none'' (resultContainer_classList s1),
                                     resultContainer_scrolls :=
                                       Suc (resultContainer_scrolls s1)\<rparr>))))"

text \<open>
  How a request ends: \<^verbatim>\<open>fetch\<close> rejects, or a response arrives with its status and
  its body, \<open>None\<close> when the body is not JSON. The status is never read.
\<close>

datatype fetch_outcome = NetworkFailure | Response nat "jv option"

text \<open>
  The chain \<^verbatim>\<open>.then(response => response.json()).then(data => handleAnalysisResult(data)).catch(...)\<close>,
  the same text in \<^verbatim>\<open>processImageFile\<close> (lines 137 to 142) and
  \<^verbatim>\<open>processImageData\<close> (lines 154 to 159): the catch handler gets what
  \<^verbatim>\<open>fetch\<close>, \<^verbatim>\<open>json()\<close> or the result handler has thrown.
\<close>

definition analysis_catch :: "js_error \<Rightarrow> ui \<Rightarrow> ui" where
  "analysis_catch error s =
     snd (showError
       (JStr ''An error occurred while processing the image. Please try again.'')
       (s\<lparr>console := console s @ [(''Error:'', error)]\<rparr>))"

definition analysis_settled :: "fetch_outcome \<Rightarrow> ui \<Rightarrow> ui" where
  "analysis_settled out s =
     (case out of
        NetworkFailure \<Rightarrow> analysis_catch TypeError s
      | Response status None \<Rightarrow> analysis_catch SyntaxError s
      | Response status (Some data) \<Rightarrow>
          (case handleAnalysisResult data s of
             (None, s') \<Rightarrow> s'
           | (Some e, s') \<Rightarrow> analysis_catch e s'))"

subsection \<open>The listeners\<close>

text \<open>
  The four listeners, lines 19 to 69. A listener that throws ends there; the page keeps the
  state it had reached.
\<close>

definition imageUpload_change :: "js_file list \<Rightarrow> ui \<Rightarrow> ui" where
  "imageUpload_change files s =
     (case files of
        [] \<Rightarrow> s
      | f # _ \<Rightarrow>
          if \<not> match_image (file_type f) then
            snd (showError (JStr ''Please select an image file (jpg, png, etc.)'') s)
          else processImageFile f (showLoading s))"

definition captureButton_click :: "ui \<Rightarrow> ui" where
  "captureButton_click s = (if isCameraActive s then stopCamera s else startCamera s)"

definition capturePhotoButton_click :: "ui \<Rightarrow> ui" where
  "capturePhotoButton_click s =
     (if isCameraActive s then
        (let (photo, s1) = capturePhoto s
         in processImageData photo (showLoading (stopCamera s1)))
      else s)"

definition cancelCaptureButton_click :: "ui \<Rightarrow> ui" where
  "cancelCaptureButton_click s = stopCamera s"

subsection \<open>Events\<close>

text \<open>
  What can happen to the page: the user's actions, the browser settling a camera prompt or
  a request that is open, and the video element taking a frame from the stream it shows.
\<close>

datatype event =
    Change "js_file list"
  | CaptureButtonClick
  | CapturePhotoClick
  | CancelCaptureClick
  | CameraGranted media_stream
  | CameraDenied js_error
  | FetchSettled fetch_outcome
  | VideoFrame nat nat string

fun step :: "ui \<Rightarrow> event \<Rightarrow> ui" where
  "step s (Change files) = imageUpload_change files s"
| "step s CaptureButtonClick = captureButton_click s"
| "step s CapturePhotoClick = capturePhotoButton_click s"
| "step s CancelCaptureClick = cancelCaptureButton_click s"
| "step s (CameraGranted ms) =
     (if camera_prompts s = 0 then s
      else getUserMedia_then ms
             (s\<lparr>camera_prompts := camera_prompts s - 1, live_tracks := live_tracks s @ ms\<rparr>))"
| "step s (CameraDenied err) =
     (if camera_prompts s = 0 then s
      else getUserMedia_catch err (s\<lparr>camera_prompts := camera_prompts s - 1\<rparr>))"
| "step s (FetchSettled out) =
     (if in_flight s = 0 then s
      else analysis_settled out (s\<lparr>in_flight := in_flight s - 1\<rparr>))"
| "step s (VideoFrame w h frame) =
     (if video_srcObject s = None then s
      else s\<lparr>videoWidth := w, videoHeight := h, video_frame := frame\<rparr>)"

definition run :: "ui \<Rightarrow> event list \<Rightarrow> ui" where
  "run s es = foldl step s es"

text \<open>
  Modelled from the spec: the page's markup is not in the repository. This is the state
  \<^verbatim>\<open>Idle\<close> of the spec: the camera view, the loading indicator, the result panel and
  the error panel are hidden, no camera is open and nothing has been sent.
\<close>

definition idle :: ui where
  "idle =
     \<lparr>isCameraActive = False, stream = None, video_srcObject = None, video_play_calls = 0,
      videoWidth = 0, videoHeight = 0, video_frame = [],
      canvas_width = 300, canvas_height = 150, canvas_bitmap = [],
      cameraContainer_classList = [''d-none''],
      captureButton_classList = [''btn'', ''btn-primary''],
      captureButton_textContent = ''Use Camera'',
      resultContainer_classList = [''d-none''], resultContainer_innerHTML = [],
      resultContainer_scrolls = 0,
      loadingSpinner_classList = [''d-none''],
      errorMessage_classList = [''alert'', ''alert-danger'', ''d-none''],
      errorMessage_textContent = [],
      live_tracks = [], mediaDevices_supported = True, camera_prompts = 0,
      requests = [], in_flight = 0, console = []\<rparr>"

section \<open>Sample inputs\<close>

text \<open>A file that is not an image.\<close>

definition cv_pdf :: js_file where
  "cv_pdf = \<lparr>file_name = ''cv.pdf'', file_type = ''application/pdf'', file_bytes = ''%PDF-1.4''\<rparr>"

text \<open>A photograph, and the page after the camera was opened and shows a frame of it.\<close>

definition portrait_png :: js_file where
  "portrait_png =
     \<lparr>file_name = ''portrait.png'', file_type = ''image/png'', file_bytes = ''PNG+bytes''\<rparr>"

definition sample_frame :: string where
  "sample_frame = ''data:image/jpeg;base64,/9j/4AAQ+Sk=''"

definition camera_open :: ui where
  "camera_open = run idle [CaptureButtonClick, CameraGranted [0], VideoFrame 640 480 sample_frame]"

text \<open>
  Answers of the service: an analysis (the number literals of the JSON text, rounded as the
  parser rounds them), the same with an \<^verbatim>\<open>error\<close> that is 0, a response that says it
  succeeded and carries nothing else, one whose \<^verbatim>\<open>error\<close> is the empty string, and
  one whose \<^verbatim>\<open>message\<close> is an object with a property \<^verbatim>\<open>toString\<close>.
\<close>

definition oval_fields :: "(string \<times> jv) list" where
  "oval_fields =
     [(''success'', JBool True),
      (''face_shape'', JStr ''oval''),
      (''description'', JStr ''Balanced proportions.''),
      (''image_with_landmarks'', JStr ''data:image/jpeg;base64,/9j/4AAQ''),
      (''measurements'',
         JObj [(''face_height'', JNum (fl 212)),
               (''face_width_top'', JNum (fl 140)),
               (''face_width_middle'', JNum (fl 159)),
               (''face_width_bottom'', JNum (fl 121)),
               (''width_to_height_ratio'', JNum (fl (75 / 100)))]),
      (''confidence'', JNum (fl (873 / 1000)))]"

definition oval_response :: jv where
  "oval_response = JObj oval_fields"

definition oval_with_zero_error :: jv where
  "oval_with_zero_error = JObj ((''error'', JNum (Fin 0)) # oval_fields)"

definition bare_success :: jv where
  "bare_success = JObj [(''success'', JBool True), (''confidence'', JNum (fl (873 / 1000)))]"

definition empty_error :: jv where
  "empty_error =
     JObj [(''error'', JStr []), (''success'', JBool False), (''message'', JStr ''No face detected'')]"

definition unprintable_message :: jv where
  "unprintable_message =
     JObj [(''success'', JBool False), (''message'', JObj [(''toString'', JStr ''x'')])]"

text \<open>
  Pages on the way: the camera was granted and the video has no frame yet; an image was
  chosen and its request is open; an analysis was shown and then the camera was refused.
\<close>

definition camera_just_opened :: ui where
  "camera_just_opened = run idle [CaptureButtonClick, CameraGranted [0]]"

definition uploading :: ui where
  "uploading = run idle [Change [portrait_png]]"

definition camera_refused_after_result :: ui where
  "camera_refused_after_result =
     run idle [Change [portrait_png], FetchSettled (Response 200 (Some oval_response)),
               CaptureButtonClick, CameraDenied (DOMException ''NotAllowedError'')]"

section \<open>Properties\<close>

subsection \<open>The number model on known values\<close>

text \<open>
  The nearest binary64 value of 0.1; the product 1.1 * 1.1, which prints with seventeen
  digits; 1.005 * 100, which falls below 100.5 and rounds to 100; and the switch to the
  exponent form at \<open>10 ^ 21\<close> and below \<open>10 ^ -6\<close>.
\<close>

lemma binary64_tenth: "fl (1 / 10) = Fin (3602879701896397 / 36028797018963968)"
  by code_simp

lemma binary64_product:
  "Number_toString (num_mul (fl (11 / 10)) (fl (11 / 10))) = ''1.2100000000000002''"
  by code_simp

lemma binary64_round_down:
  "Number_toString (num_mul (fl (1005 / 1000)) (Fin 100)) = ''100.49999999999999''"
  "Math_round (num_mul (fl (1005 / 1000)) (Fin 100)) = Fin 100"
  by code_simp+

lemma number_forms:
  "Number_toString (fl (10 ^ 21)) = ''1e+21''"
  "Number_toString (fl (10 ^ 20)) = ''100000000000000000000''"
  "Number_toString (fl (1 / 10 ^ 6)) = ''0.000001''"
  "Number_toString (fl (1 / 10 ^ 7)) = ''1e-7''"
  "Number_toString (fl (- 873 / 10)) = ''-87.3''"
  by code_simp+

lemma string_numbers:
  "StringToNumber '' 0.873 '' = fl (873 / 1000)"
  "StringToNumber ''0x1F'' = Fin 31"
  "StringToNumber ''1e3'' = Fin 1000"
  "StringToNumber [] = Fin 0"
  "StringToNumber ''12px'' = NaN"
  "StringToNumber ''-Infinity'' = NInf"
  by code_simp+

subsection \<open>Class lists\<close>

lemma classList_add_idem: "classList_add c (classList_add c cs) = classList_add c cs"
  by (simp add: classList_add_def)

lemma classList_swap_idem:
  "a \<noteq> b \<Longrightarrow>
   classList_add a (classList_remove b (classList_add a (classList_remove b cs)))
     = classList_add a (classList_remove b cs)"
  by (simp add: classList_add_def classList_remove_def)

lemma hidden_after_add: "\<not> visible (classList_add ''d-none'' cs)"
  by (simp add: visible_def classList_add_def)

lemma visible_after_remove: "visible (classList_remove ''d-none'' cs)"
  by (simp add: visible_def classList_remove_def)

subsection \<open>Releasing the camera\<close>

lemma stream_stopCamera: "stream (stopCamera s) = None"
  by (simp add: stopCamera_def set_srcObject_def Let_def split: option.split)

text \<open>
  C7. Releasing the camera is idempotent. \<^verbatim>\<open>stopCamera\<close> has no failing step, and from
  every state (a stream held, a stream released before, never a stream) a second call
  changes nothing the first one left: the stream variable is cleared, the camera is marked
  inactive and the camera region is hidden. The cancel button is the same function.
\<close>

theorem stopCamera_idempotent:
  "stopCamera (stopCamera s) = stopCamera s
   \<and> cancelCaptureButton_click (cancelCaptureButton_click s) = cancelCaptureButton_click s
   \<and> stream (stopCamera s) = None
   \<and> \<not> isCameraActive (stopCamera s)
   \<and> \<not> visible (cameraContainer_classList (stopCamera s))"
proof -
  have btn: "''btn-primary'' \<noteq> ''btn-danger''" by simp
  have idem: "stopCamera (stopCamera s) = stopCamera s"
    by (cases "stream s")
       (simp_all add: stopCamera_def set_srcObject_def Let_def classList_add_idem classList_swap_idem [OF btn])
  have hid: "\<not> visible (cameraContainer_classList (stopCamera s))"
    by (cases "stream s") (simp_all add: stopCamera_def set_srcObject_def Let_def hidden_after_add)
  have off: "\<not> isCameraActive (stopCamera s)"
    by (cases "stream s") (simp_all add: stopCamera_def set_srcObject_def Let_def)
  from idem hid off stream_stopCamera show ?thesis
    by (simp add: cancelCaptureButton_click_def)
qed

subsection \<open>Choosing a file\<close>

lemma showError_string:
  "showError (JStr m) s =
     (None, (hideLoading s)\<lparr>errorMessage_textContent := m,
              errorMessage_classList := classList_remove ''d-none'' (errorMessage_classList s)\<rparr>)"
  by (simp add: showError_def DOMString_def Let_def hideLoading_def)

text \<open>
  C3. When the type of the chosen file does not match \<^verbatim>\<open>image.*\<close>, the change
  listener shows the validation message and returns: no request is sent, none is in flight
  that was not before, and the loading indicator is not shown.
\<close>

theorem upload_rejects_non_image:
  assumes "\<not> match_image (file_type f)"
  shows "requests (imageUpload_change (f # fs) s) = requests s
         \<and> in_flight (imageUpload_change (f # fs) s) = in_flight s
         \<and> \<not> visible (loadingSpinner_classList (imageUpload_change (f # fs) s))
         \<and> visible (errorMessage_classList (imageUpload_change (f # fs) s))
         \<and> errorMessage_textContent (imageUpload_change (f # fs) s)
             = ''Please select an image file (jpg, png, etc.)''"
  using assms
  by (simp add: imageUpload_change_def showError_string hideLoading_def
        hidden_after_add visible_after_remove)

theorem upload_rejects_non_image_witness:
  "\<not> match_image (file_type cv_pdf)
   \<and> requests (imageUpload_change [cv_pdf] idle) = []
   \<and> in_flight (imageUpload_change [cv_pdf] idle) = 0
   \<and> \<not> visible (loadingSpinner_classList (imageUpload_change [cv_pdf] idle))
   \<and> visible (errorMessage_classList (imageUpload_change [cv_pdf] idle))
   \<and> errorMessage_textContent (imageUpload_change [cv_pdf] idle)
       = ''Please select an image file (jpg, png, etc.)''"
proof -
  have no: "\<not> match_image (file_type cv_pdf)"
    by (simp add: cv_pdf_def)
  from upload_rejects_non_image [OF no, of "[]" idle] no show ?thesis
    by (simp add: idle_def)
qed

subsection \<open>The two encodings\<close>

lemma hex_val_hex_digit: "n < 16 \<Longrightarrow> hex_val (hex_digit n) = n"
proof -
  have "\<forall>k \<in> set [0..<16]. hex_val (hex_digit k) = k"
    by code_simp
  moreover assume "n < 16"
  ultimately show ?thesis by simp
qed

lemma decode_percent: "form_decode (percent c @ rest) = c # form_decode rest"
proof -
  have "code c < 256" by (simp add: code_def)
  then have "code c div 16 < 16" by simp
  then show ?thesis
    by (simp add: percent_def hex_val_hex_digit) (simp add: code_def)
qed

lemma unreserved_plain: "unreserved c \<Longrightarrow> c \<noteq> CHR ''+'' \<and> c \<noteq> CHR ''%''"
  by (auto simp: unreserved_def is_digit_def code_def)

lemma form_decode_encode: "form_decode (encodeURIComponent s) = s"
proof (induction s)
  case Nil
  show ?case by (simp add: encodeURIComponent_def)
next
  case (Cons c s)
  have unfold: "encodeURIComponent (c # s)
                = (if unreserved c then [c] else percent c) @ encodeURIComponent s"
    by (simp add: encodeURIComponent_def)
  show ?case
  proof (cases "unreserved c")
    case True
    with unreserved_plain [of c] Cons.IH unfold show ?thesis by simp
  next
    case False
    with Cons.IH unfold decode_percent [of c "encodeURIComponent s"] show ?thesis by simp
  qed
qed

lemma encoded_chars: "list_all (\<lambda>c. unreserved c \<or> c = CHR ''%'') (encodeURIComponent s)"
proof (induction s)
  case Nil
  show ?case by (simp add: encodeURIComponent_def)
next
  case (Cons c s)
  have "\<forall>k \<in> set [0..<16]. unreserved (hex_digit k)"
    by code_simp
  then have "unreserved (hex_digit n)" for n
    by (simp add: hex_digit_def)
  with Cons show ?case
    by (simp add: encodeURIComponent_def percent_def)
qed

lemma requests_showLoading: "requests (showLoading s) = requests s"
  by (simp add: showLoading_def)

lemma requests_stopCamera: "requests (stopCamera s) = requests s"
  by (simp add: stopCamera_def set_srcObject_def Let_def split: option.split)

lemma requests_capturePhoto: "requests (snd (capturePhoto s)) = requests s"
  by (simp add: capturePhoto_def Let_def)

text \<open>
  C8. The encoding follows the source of the image. \<^verbatim>\<open>processImageFile\<close>, which the
  change listener calls on an image file, sends a form-data body whose field
  \<^verbatim>\<open>image\<close> is the file; \<^verbatim>\<open>processImageData\<close>, which the capture listener calls on
  the canvas's data URL, sends a URL-encoded body whose field \<^verbatim>\<open>image_data\<close> is the
  percent-encoded string: only unreserved bytes and \<^verbatim>\<open>%\<close> are in it, and decoding it
  gives the data URL back. Both are a POST to \<^verbatim>\<open>/analyze\<close>.
\<close>

theorem wire_encoding:
  "requests (processImageFile f s)
     = requests s @ [\<lparr>url = ''/analyze'', http_method = ''POST'', headers = [],
                       body = FormData [(''image'', f)]\<rparr>]
   \<and> requests (processImageData d s)
     = requests s @ [\<lparr>url = ''/analyze'', http_method = ''POST'',
                       headers = [(''Content-Type'', ''application/x-www-form-urlencoded'')],
                       body = Text (''image_data='' @ encodeURIComponent d)\<rparr>]
   \<and> list_all (\<lambda>c. unreserved c \<or> c = CHR ''%'') (encodeURIComponent d)
   \<and> form_decode (encodeURIComponent d) = d
   \<and> (match_image (file_type f) \<longrightarrow>
        requests (imageUpload_change (f # fs) s)
          = requests s @ [\<lparr>url = ''/analyze'', http_method = ''POST'', headers = [],
                            body = FormData [(''image'', f)]\<rparr>])
   \<and> (isCameraActive s \<longrightarrow>
        requests (capturePhotoButton_click s)
          = requests s @ [\<lparr>url = ''/analyze'', http_method = ''POST'',
                            headers = [(''Content-Type'', ''application/x-www-form-urlencoded'')],
                            body = Text (''image_data=''
                                         @ encodeURIComponent (fst (capturePhoto s)))\<rparr>])"
proof -
  have via_file: "requests (processImageFile f' s')
     = requests s' @ [\<lparr>url = ''/analyze'', http_method = ''POST'', headers = [],
                        body = FormData [(''image'', f')]\<rparr>]" for f' s'
    by (simp add: processImageFile_def fetch_def)
  have via_data: "requests (processImageData d' s')
     = requests s' @ [\<lparr>url = ''/analyze'', http_method = ''POST'',
                        headers = [(''Content-Type'', ''application/x-www-form-urlencoded'')],
                        body = Text (''image_data='' @ encodeURIComponent d')\<rparr>]" for d' s'
    by (simp add: processImageData_def fetch_def)
  have upload: "match_image (file_type f) \<longrightarrow>
        requests (imageUpload_change (f # fs) s)
          = requests s @ [\<lparr>url = ''/analyze'', http_method = ''POST'', headers = [],
                            body = FormData [(''image'', f)]\<rparr>]"
    by (simp add: imageUpload_change_def via_file requests_showLoading)
  have camera: "isCameraActive s \<longrightarrow>
        requests (capturePhotoButton_click s)
          = requests s @ [\<lparr>url = ''/analyze'', http_method = ''POST'',
                            headers = [(''Content-Type'', ''application/x-www-form-urlencoded'')],
                            body = Text (''image_data=''
                                         @ encodeURIComponent (fst (capturePhoto s)))\<rparr>]"
    by (simp add: capturePhotoButton_click_def via_data requests_showLoading requests_stopCamera
          requests_capturePhoto split: prod.split)
       (metis requests_capturePhoto snd_conv)
  from via_file via_data encoded_chars form_decode_encode upload camera show ?thesis
    by blast
qed

theorem wire_encoding_witness:
  "match_image (file_type portrait_png)
   \<and> isCameraActive camera_open
   \<and> requests (imageUpload_change [portrait_png] idle)
       = [\<lparr>url = ''/analyze'', http_method = ''POST'', headers = [],
           body = FormData [(''image'', portrait_png)]\<rparr>]
   \<and> requests (capturePhotoButton_click camera_open)
       = [\<lparr>url = ''/analyze'', http_method = ''POST'',
           headers = [(''Content-Type'', ''application/x-www-form-urlencoded'')],
           body = Text ''image_data=data%3Aimage%2Fjpeg%3Bbase64%2C%2F9j%2F4AAQ%2BSk%3D''\<rparr>]
   \<and> form_decode ''data%3Aimage%2Fjpeg%3Bbase64%2C%2F9j%2F4AAQ%2BSk%3D'' = sample_frame"
proof -
  have img: "match_image (file_type portrait_png)"
    by (simp add: portrait_png_def)
  have cam: "isCameraActive camera_open"
    by code_simp
  have sent: "requests idle = []" "requests camera_open = []"
    by code_simp+
  have photo: "fst (capturePhoto camera_open) = sample_frame"
    by code_simp
  have enc: "encodeURIComponent sample_frame
             = ''data%3Aimage%2Fjpeg%3Bbase64%2C%2F9j%2F4AAQ%2BSk%3D''"
    by code_simp
  note w1 = wire_encoding [of portrait_png idle sample_frame "[]"]
  note w2 = wire_encoding [of portrait_png camera_open sample_frame "[]"]
  from w1 img sent have up:
    "requests (imageUpload_change [portrait_png] idle)
       = [\<lparr>url = ''/analyze'', http_method = ''POST'', headers = [],
           body = FormData [(''image'', portrait_png)]\<rparr>]"
    by simp
  from w2 cam sent photo enc have shot:
    "requests (capturePhotoButton_click camera_open)
       = [\<lparr>url = ''/analyze'', http_method = ''POST'',
           headers = [(''Content-Type'', ''application/x-www-form-urlencoded'')],
           body = Text ''image_data=data%3Aimage%2Fjpeg%3Bbase64%2C%2F9j%2F4AAQ%2BSk%3D''\<rparr>]"
    by simp
  from w1 enc have decoded:
    "form_decode ''data%3Aimage%2Fjpeg%3Bbase64%2C%2F9j%2F4AAQ%2BSk%3D'' = sample_frame"
    by simp
  from img cam up shot decoded show ?thesis
    by blast
qed

subsection \<open>Reading the response\<close>

lemma and_then_Inl: "and_then r f = Inl e \<longleftrightarrow> r = Inl e \<or> (\<exists>x. r = Inr x \<and> f x = Inl e)"
  by (cases r) (simp_all add: and_then_def)

lemma and_then_Inr: "and_then r f = Inr y \<longleftrightarrow> (\<exists>x. r = Inr x \<and> f x = Inr y)"
  by (cases r) (simp_all add: and_then_def)

lemma and_then_Inr_simp: "and_then (Inr x) f = f x"
  by (simp add: and_then_def)

text \<open>Every exception of the conversions and of the rendering is a TypeError.\<close>

lemma ToString_TypeError:
  "ToString v = Inl e \<Longrightarrow> e = TypeError"
  "element_strings vs = Inl e \<Longrightarrow> e = TypeError"
  by (induction v and vs rule: ToString_element_strings.induct)
     (auto split: sum.splits if_splits)

lemma js_get_TypeError: "js_get v k = Inl e \<Longrightarrow> e = TypeError"
  by (cases v) auto

lemma ToNumber_TypeError: "ToNumber v = Inl e \<Longrightarrow> e = TypeError"
  by (cases v) (auto simp: and_then_Inl simp del: ToString.simps dest: ToString_TypeError)

lemma call_toUpperCase_TypeError: "call_toUpperCase v = Inl e \<Longrightarrow> e = TypeError"
  by (cases v) (auto simp: call_toUpperCase_def)

lemma measurement_TypeError: "measurement data k = Inl e \<Longrightarrow> e = TypeError"
  by (auto simp: measurement_def and_then_Inl dest: js_get_TypeError ToString_TypeError)

lemma confidence_percent_TypeError: "confidence_percent data = Inl e \<Longrightarrow> e = TypeError"
  by (auto simp: confidence_percent_def and_then_Inl dest: js_get_TypeError ToNumber_TypeError)

lemma render_result_TypeError: "render_result data = Inl e \<Longrightarrow> e = TypeError"
  unfolding render_result_def and_then_Inl
  by (auto dest: js_get_TypeError ToString_TypeError call_toUpperCase_TypeError
        measurement_TypeError confidence_percent_TypeError)

text \<open>A rendering that does not throw has read a string label and a measurements value.\<close>

lemma render_result_Inr:
  assumes "render_result data = Inr html"
  shows "\<exists>shape m. js_get data ''face_shape'' = Inr (JStr shape)
           \<and> js_get data ''measurements'' = Inr m \<and> present m"
proof -
  from assms obtain shape where
    shape: "and_then (js_get data ''face_shape'') call_toUpperCase = Inr shape"
    and "\<exists>fh. measurement data ''face_height'' = Inr fh"
    unfolding render_result_def and_then_Inr by blast
  then obtain v where v: "js_get data ''face_shape'' = Inr v" "call_toUpperCase v = Inr shape"
    unfolding and_then_Inr by blast
  then obtain label where "v = JStr label"
    by (cases v) (auto simp: call_toUpperCase_def)
  moreover
  from \<open>\<exists>fh. measurement data ''face_height'' = Inr fh\<close>
  obtain m x where m: "js_get data ''measurements'' = Inr m" "js_get m ''face_height'' = Inr x"
    unfolding measurement_def and_then_Inr by blast
  then have "present m"
    by (cases m) (auto simp: present_def)
  ultimately show ?thesis using v m by blast
qed

lemma js_get_present: "present v \<Longrightarrow> js_get v k = Inr (field v k)"
  by (cases v) (auto simp: field_def present_def)

lemma truthy_present: "truthy v \<Longrightarrow> present v"
  by (cases v) (auto simp: present_def)

lemma truthy_field_present: "truthy (field data k) \<Longrightarrow> present data"
  by (cases data) (auto simp: field_def present_def)

lemma ToString_printable: "printable v \<Longrightarrow> ToString v = Inr (string_of v)"
  by (auto simp: printable_def string_of_def split: sum.splits)

lemma DOMString_truthy: "truthy v \<Longrightarrow> DOMString v = ToString v"
  by (cases v) (auto simp: DOMString_def)

lemma showError_printable:
  "truthy v \<Longrightarrow> printable v \<Longrightarrow>
   showError v s =
     (None, (hideLoading s)\<lparr>errorMessage_textContent := string_of v,
              errorMessage_classList := classList_remove ''d-none'' (errorMessage_classList s)\<rparr>)"
  by (simp add: showError_def DOMString_truthy ToString_printable Let_def hideLoading_def)

lemma showError_unprintable:
  assumes "truthy v" and "\<not> printable v"
  shows "showError v s = (Some TypeError, hideLoading s)"
proof -
  from assms(2) obtain e where e: "ToString v = Inl e"
    by (auto simp: printable_def split: sum.splits)
  with ToString_TypeError(1) [OF e] assms(1) show ?thesis
    by (simp add: showError_def DOMString_truthy Let_def)
qed

lemma hideLoading_idem: "hideLoading (hideLoading s) = hideLoading s"
  by (simp add: hideLoading_def classList_add_idem)

text \<open>The handler on a truthy error, and on a falsy error with a falsy success.\<close>

lemma handler_by_error:
  assumes "present data" and "truthy (field data ''error'')"
  shows "handleAnalysisResult data s = showError (field data ''error'') (hideLoading s)"
  using assms(2) js_get_present [OF assms(1)]
  by (simp add: handleAnalysisResult_def Let_def)

lemma handler_by_message:
  assumes "present data" and "\<not> truthy (field data ''error'')"
    and "\<not> truthy (field data ''success'')"
  shows "handleAnalysisResult data s
         = showError (js_or (field data ''message'')
                        (JStr ''An unknown error occurred during face analysis.''))
             (hideLoading s)"
  using assms(2,3) js_get_present [OF assms(1)]
  by (simp add: handleAnalysisResult_def Let_def)

lemma render_result_template: "render_result data = Inr html \<Longrightarrow> \<exists>p. html = result_template p"
  unfolding render_result_def and_then_Inr by blast

text \<open>The handler once the error test and the success test have let the response through.\<close>

lemma handler_on_success:
  assumes "\<not> truthy (field data ''error'')" and "truthy (field data ''success'')"
  shows "handleAnalysisResult data s =
        (case render_result data of
           Inl e \<Rightarrow> (Some e, hideLoading s)
         | Inr html \<Rightarrow>
             (None,
              (hideLoading s)\<lparr>resultContainer_innerHTML := html,
                 resultContainer_classList :=
                   classList_remove ''d-none'' (resultContainer_classList s),
                 resultContainer_scrolls := Suc (resultContainer_scrolls s)\<rparr>))"
  using assms js_get_present [OF truthy_field_present [OF assms(2)]]
  by (simp add: handleAnalysisResult_def Let_def hideLoading_def split: sum.split)

subsection \<open>The template\<close>

lemma sublist_skip: "sublist xs ys \<Longrightarrow> sublist xs (zs @ ys)"
  by (auto simp: sublist_def intro: append_assoc [symmetric])

lemma sublist_line: "sublist (a @ b @ c) (a @ b @ c @ rest)"
  by (metis append_assoc sublist_append_rightI)

lemma template_label_line:
  \<open>sublist
     (''                            <h4 class="text-primary">Your Face Shape: <span class="badge bg-primary">''
      @ p_label p @ ''</span></h4>\<newline>'')
     (result_template p)\<close>
  unfolding result_template_def
  by (rule sublist_line | rule sublist_skip)+

lemma template_confidence_line:
  \<open>sublist
     (''                                <strong>Analysis Confidence:</strong> ''
      @ p_confidence p @ ''%\<newline>'')
     (result_template p)\<close>
  unfolding result_template_def
  by (rule sublist_line | rule sublist_skip)+

subsection \<open>The sample answer\<close>

lemma render_oval:
  "render_result oval_response =
     Inr (result_template
            \<lparr>p_image = ''data:image/jpeg;base64,/9j/4AAQ'', p_label = ''OVAL'',
             p_description = ''Balanced proportions.'', p_face_height = ''212'',
             p_face_width_top = ''140'', p_face_width_middle = ''159'',
             p_face_width_bottom = ''121'', p_ratio = ''0.75'', p_confidence = ''87''\<rparr>)"
proof -
  have img: "and_then (js_get oval_response ''image_with_landmarks'') ToString
             = Inr ''data:image/jpeg;base64,/9j/4AAQ''"
    by code_simp
  have shape: "and_then (js_get oval_response ''face_shape'') call_toUpperCase = Inr ''OVAL''"
    by code_simp
  have descr: "and_then (js_get oval_response ''description'') ToString
               = Inr ''Balanced proportions.''"
    by code_simp
  have fh: "measurement oval_response ''face_height'' = Inr ''212''"
    by code_simp
  have ft: "measurement oval_response ''face_width_top'' = Inr ''140''"
    by code_simp
  have fm: "measurement oval_response ''face_width_middle'' = Inr ''159''"
    by code_simp
  have fb: "measurement oval_response ''face_width_bottom'' = Inr ''121''"
    by code_simp
  have ratio: "measurement oval_response ''width_to_height_ratio'' = Inr ''0.75''"
    by code_simp
  have conf: "confidence_percent oval_response = Inr ''87''"
    by code_simp
  show ?thesis
    unfolding render_result_def img shape descr fh ft fm fb ratio conf and_then_Inr_simp ..
qed

lemma oval_is_success:
  "\<not> truthy (field oval_response ''error'')" "truthy (field oval_response ''success'')"
  by (simp_all add: oval_response_def oval_fields_def field_def)

lemma bare_is_success:
  "\<not> truthy (field bare_success ''error'')" "truthy (field bare_success ''success'')"
  "field bare_success ''face_shape'' = JUndefined"
  by (simp_all add: bare_success_def field_def)

lemma render_bare: "render_result bare_success = Inl TypeError"
  by (simp add: render_result_def bare_success_def and_then_def call_toUpperCase_def)

subsection \<open>A falsy error\<close>

lemma map_of_without:
  "map_of (filter (\<lambda>(k, v). k \<noteq> a) fs) k' = (if k' = a then None else map_of fs k')"
  by (induction fs) auto

lemma render_result_without_error:
  "render_result (JObj (filter (\<lambda>(k, v). k \<noteq> ''error'') fs)) = render_result (JObj fs)"
  by (simp add: render_result_def measurement_def confidence_percent_def map_of_without)

text \<open>
  C10. The handler tests \<^verbatim>\<open>data.error\<close> by truthiness. For a response whose
  \<^verbatim>\<open>error\<close> is falsy (the empty string, 0, \<^verbatim>\<open>null\<close>, \<^verbatim>\<open>false\<close>) the error
  branch is not taken and the success test decides what happens:
  \<^item> with \<^verbatim>\<open>success\<close> truthy the handler goes on to the rendering: it leaves the error
    region alone, it returns exactly when the rendering does not throw, and then the
    result region is shown with the template in it;
  \<^item> with \<^verbatim>\<open>success\<close> falsy it displays the string of \<^verbatim>\<open>message\<close> when that is
    truthy (and throws when the message has no string), and the fixed text when it is not.

  The value of \<^verbatim>\<open>error\<close> is displayed in no case, and the outcome is the one of the
  same response without the property.
\<close>

theorem falsy_error_is_absent:
  assumes "map_of fs ''error'' = Some v" and "\<not> truthy v"
  shows
    "(truthy (field (JObj fs) ''success'') \<longrightarrow>
        errorMessage_textContent (snd (handleAnalysisResult (JObj fs) s))
          = errorMessage_textContent s
        \<and> errorMessage_classList (snd (handleAnalysisResult (JObj fs) s))
            = errorMessage_classList s
        \<and> (fst (handleAnalysisResult (JObj fs) s) = None) = (\<not> isl (render_result (JObj fs)))
        \<and> (fst (handleAnalysisResult (JObj fs) s) = None \<longrightarrow>
             visible (resultContainer_classList (snd (handleAnalysisResult (JObj fs) s)))
             \<and> (\<exists>p. resultContainer_innerHTML (snd (handleAnalysisResult (JObj fs) s))
                      = result_template p)))
     \<and> (\<not> truthy (field (JObj fs) ''success'') \<and> truthy (field (JObj fs) ''message'') \<longrightarrow>
        handleAnalysisResult (JObj fs) s =
          (if printable (field (JObj fs) ''message'')
           then (None, (hideLoading s)\<lparr>errorMessage_textContent :=
                           string_of (field (JObj fs) ''message''),
                         errorMessage_classList :=
                           classList_remove ''d-none'' (errorMessage_classList s)\<rparr>)
           else (Some TypeError, hideLoading s)))
     \<and> (\<not> truthy (field (JObj fs) ''success'') \<and> \<not> truthy (field (JObj fs) ''message'') \<longrightarrow>
        handleAnalysisResult (JObj fs) s =
          (None, (hideLoading s)\<lparr>errorMessage_textContent :=
                     ''An unknown error occurred during face analysis.'',
                   errorMessage_classList :=
                     classList_remove ''d-none'' (errorMessage_classList s)\<rparr>))
     \<and> handleAnalysisResult (JObj fs) s
         = handleAnalysisResult (JObj (filter (\<lambda>(k, v). k \<noteq> ''error'') fs)) s"
proof -
  let ?d = "JObj fs"
  have here: "present ?d"
    by (simp add: present_def)
  have falsy: "\<not> truthy (field ?d ''error'')"
    using assms by (simp add: field_def)
  have rendering: "truthy (field ?d ''success'') \<longrightarrow>
        errorMessage_textContent (snd (handleAnalysisResult ?d s)) = errorMessage_textContent s
        \<and> errorMessage_classList (snd (handleAnalysisResult ?d s)) = errorMessage_classList s
        \<and> (fst (handleAnalysisResult ?d s) = None) = (\<not> isl (render_result ?d))
        \<and> (fst (handleAnalysisResult ?d s) = None \<longrightarrow>
             visible (resultContainer_classList (snd (handleAnalysisResult ?d s)))
             \<and> (\<exists>p. resultContainer_innerHTML (snd (handleAnalysisResult ?d s))
                      = result_template p))"
  proof
    assume ok: "truthy (field ?d ''success'')"
    note handler = handler_on_success [OF falsy ok, of s]
    show "errorMessage_textContent (snd (handleAnalysisResult ?d s)) = errorMessage_textContent s
        \<and> errorMessage_classList (snd (handleAnalysisResult ?d s)) = errorMessage_classList s
        \<and> (fst (handleAnalysisResult ?d s) = None) = (\<not> isl (render_result ?d))
        \<and> (fst (handleAnalysisResult ?d s) = None \<longrightarrow>
             visible (resultContainer_classList (snd (handleAnalysisResult ?d s)))
             \<and> (\<exists>p. resultContainer_innerHTML (snd (handleAnalysisResult ?d s))
                      = result_template p))"
    proof (cases "render_result ?d")
      case (Inl e)
      with handler show ?thesis
        by (simp add: hideLoading_def)
    next
      case (Inr html)
      with handler render_result_template [OF Inr] show ?thesis
        by (auto simp: hideLoading_def visible_after_remove)
    qed
  qed
  have message: "\<not> truthy (field ?d ''success'') \<and> truthy (field ?d ''message'') \<longrightarrow>
        handleAnalysisResult ?d s =
          (if printable (field ?d ''message'')
           then (None, (hideLoading s)\<lparr>errorMessage_textContent :=
                           string_of (field ?d ''message''),
                         errorMessage_classList :=
                           classList_remove ''d-none'' (errorMessage_classList s)\<rparr>)
           else (Some TypeError, hideLoading s))"
    using handler_by_message [OF here falsy, of s]
    by (simp add: js_or_def showError_printable showError_unprintable hideLoading_idem)
       (simp add: hideLoading_def)
  have fixed: "\<not> truthy (field ?d ''success'') \<and> \<not> truthy (field ?d ''message'') \<longrightarrow>
        handleAnalysisResult ?d s =
          (None, (hideLoading s)\<lparr>errorMessage_textContent :=
                     ''An unknown error occurred during face analysis.'',
                   errorMessage_classList :=
                     classList_remove ''d-none'' (errorMessage_classList s)\<rparr>)"
    using handler_by_message [OF here falsy, of s]
    by (simp add: js_or_def showError_string hideLoading_idem) (simp add: hideLoading_def)
  have absent: "handleAnalysisResult ?d s
         = handleAnalysisResult (JObj (filter (\<lambda>(k, v). k \<noteq> ''error'') fs)) s"
    using assms
    by (simp add: handleAnalysisResult_def Let_def map_of_without render_result_without_error)
  from rendering message fixed absent show ?thesis
    by blast
qed

theorem falsy_error_is_absent_witness:
  "\<not> truthy (JStr []) \<and> \<not> truthy (JNum (Fin 0)) \<and> \<not> truthy JNull \<and> \<not> truthy (JBool False)
   \<and> errorMessage_textContent
        (snd (handleAnalysisResult (JObj [(''error'', JStr []), (''success'', JBool False)]) idle))
       = ''An unknown error occurred during face analysis.''
   \<and> errorMessage_textContent
        (snd (handleAnalysisResult
                (JObj [(''error'', JNum (Fin 0)), (''success'', JBool False)]) idle))
       = ''An unknown error occurred during face analysis.''
   \<and> errorMessage_textContent
        (snd (handleAnalysisResult (JObj [(''error'', JNull), (''success'', JBool False)]) idle))
       = ''An unknown error occurred during face analysis.''
   \<and> errorMessage_textContent
        (snd (handleAnalysisResult
                (JObj [(''error'', JBool False), (''success'', JBool False),
                       (''message'', JStr ''Image too dark'')]) idle))
       = ''Image too dark''
   \<and> field oval_with_zero_error ''error'' = JNum (Fin 0)
   \<and> fst (handleAnalysisResult oval_with_zero_error idle) = None
   \<and> visible (resultContainer_classList (snd (handleAnalysisResult oval_with_zero_error idle)))
   \<and> \<not> visible (errorMessage_classList (snd (handleAnalysisResult oval_with_zero_error idle)))"
proof -
  have fixed: "errorMessage_textContent
        (snd (handleAnalysisResult (JObj [(''error'', v), (''success'', JBool False)]) idle))
       = ''An unknown error occurred during face analysis.''"
    if "\<not> truthy v" for v
    using falsy_error_is_absent [of "[(''error'', v), (''success'', JBool False)]" v idle] that
    by (simp add: field_def)
  have message: "errorMessage_textContent
        (snd (handleAnalysisResult
                (JObj [(''error'', JBool False), (''success'', JBool False),
                       (''message'', JStr ''Image too dark'')]) idle))
       = ''Image too dark''"
    using falsy_error_is_absent [of "[(''error'', JBool False), (''success'', JBool False),
        (''message'', JStr ''Image too dark'')]" "JBool False" idle]
    by (simp add: field_def printable_def string_of_def)
  have zero: "field oval_with_zero_error ''error'' = JNum (Fin 0)"
    and ok: "truthy (field (JObj ((''error'', JNum (Fin 0)) # oval_fields)) ''success'')"
    by (simp_all add: oval_with_zero_error_def oval_fields_def field_def)
  have "render_result (JObj ((''error'', JNum (Fin 0)) # oval_fields))
        = render_result oval_response"
    using render_result_without_error [of "(''error'', JNum (Fin 0)) # oval_fields"]
    by (simp add: oval_response_def oval_fields_def)
  then have renders: "\<not> isl (render_result (JObj ((''error'', JNum (Fin 0)) # oval_fields)))"
    by (simp add: render_oval)
  have hidden: "\<not> visible (errorMessage_classList idle)"
    by (simp add: idle_def visible_def)
  note w = falsy_error_is_absent [of "(''error'', JNum (Fin 0)) # oval_fields" "JNum (Fin 0)" idle,
      THEN conjunct1]
  from w ok renders hidden
  have rendered: "fst (handleAnalysisResult oval_with_zero_error idle) = None"
    "visible (resultContainer_classList (snd (handleAnalysisResult oval_with_zero_error idle)))"
    "\<not> visible (errorMessage_classList (snd (handleAnalysisResult oval_with_zero_error idle)))"
    by (simp_all add: oval_with_zero_error_def)
  have "\<not> truthy (JStr [])" "\<not> truthy (JNum (Fin 0))" "\<not> truthy JNull" "\<not> truthy (JBool False)"
    by simp_all
  with fixed message zero rendered show ?thesis
    by blast
qed

subsection \<open>What the rendering needs\<close>

text \<open>
  C9. On the success path (\<^verbatim>\<open>error\<close> falsy, \<^verbatim>\<open>success\<close> truthy) the handler reads
  \<^verbatim>\<open>data.face_shape.toUpperCase()\<close> and the fields of \<^verbatim>\<open>data.measurements\<close> without
  a test. When \<^verbatim>\<open>face_shape\<close> or \<^verbatim>\<open>measurements\<close> is missing it throws a TypeError
  after hiding the loading indicator, and neither the result nor the error region is
  touched. When it returns, \<^verbatim>\<open>face_shape\<close> was a string and \<^verbatim>\<open>measurements\<close> was
  there.
\<close>

theorem success_render_needs_fields:
  assumes "\<not> truthy (field data ''error'')" and "truthy (field data ''success'')"
  shows "(field data ''face_shape'' = JUndefined \<or> field data ''measurements'' = JUndefined
            \<longrightarrow> handleAnalysisResult data s = (Some TypeError, hideLoading s))
         \<and> (fst (handleAnalysisResult data s) = None
            \<longrightarrow> (\<exists>shape. field data ''face_shape'' = JStr shape)
                \<and> present (field data ''measurements''))"
proof -
  have get: "js_get data k = Inr (field data k)" for k
    by (rule js_get_present [OF truthy_field_present [OF assms(2)]])
  note handler = handler_on_success [OF assms, of s]
  have fields: "(\<exists>shape. field data ''face_shape'' = JStr shape)
                \<and> present (field data ''measurements'')"
    if "render_result data = Inr html" for html
    using render_result_Inr [OF that] by (auto simp: get)
  have throws: "handleAnalysisResult data s = (Some TypeError, hideLoading s)"
    if "field data ''face_shape'' = JUndefined \<or> field data ''measurements'' = JUndefined"
  proof (cases "render_result data")
    case (Inl e)
    with render_result_TypeError [OF Inl] handler show ?thesis by simp
  next
    case (Inr html)
    with fields [OF Inr] that show ?thesis by (auto simp: present_def)
  qed
  have returns: "(\<exists>shape. field data ''face_shape'' = JStr shape)
                 \<and> present (field data ''measurements'')"
    if "fst (handleAnalysisResult data s) = None"
  proof (cases "render_result data")
    case (Inl e)
    with handler that show ?thesis by simp
  next
    case (Inr html)
    from fields [OF Inr] show ?thesis .
  qed
  from throws returns show ?thesis by blast
qed

theorem success_render_needs_fields_witness:
  "\<not> truthy (field bare_success ''error'') \<and> truthy (field bare_success ''success'')
   \<and> field bare_success ''face_shape'' = JUndefined
   \<and> handleAnalysisResult bare_success idle = (Some TypeError, hideLoading idle)
   \<and> resultContainer_classList (hideLoading idle) = resultContainer_classList idle
   \<and> errorMessage_classList (hideLoading idle) = errorMessage_classList idle
   \<and> \<not> truthy (field oval_response ''error'') \<and> truthy (field oval_response ''success'')
   \<and> fst (handleAnalysisResult oval_response idle) = None
   \<and> field oval_response ''face_shape'' = JStr ''oval''
   \<and> present (field oval_response ''measurements'')"
proof -
  note bare = success_render_needs_fields [OF bare_is_success(1,2), of idle]
  note oval = success_render_needs_fields [OF oval_is_success, of idle]
  have returned: "fst (handleAnalysisResult oval_response idle) = None"
    by (simp add: handler_on_success [OF oval_is_success] render_oval)
  have shape: "field oval_response ''face_shape'' = JStr ''oval''"
    by (simp add: oval_response_def oval_fields_def field_def)
  from bare bare_is_success oval oval_is_success returned shape show ?thesis
    by (simp add: hideLoading_def)
qed

subsection \<open>Which branch the handler takes\<close>

text \<open>
  C1, as the spec states it, fails: the response
  \<^verbatim>\<open>{"error": "", "success": false, "message": "No face detected"}\<close> has an
  \<^verbatim>\<open>error\<close> property, and the handler displays the message, not the error string.
\<close>

theorem present_error_not_displayed:
  "present (field empty_error ''error'')
   \<and> field empty_error ''error'' = JStr []
   \<and> fst (handleAnalysisResult empty_error idle) = None
   \<and> visible (errorMessage_classList (snd (handleAnalysisResult empty_error idle)))
   \<and> errorMessage_textContent (snd (handleAnalysisResult empty_error idle)) = ''No face detected''"
  by (simp add: empty_error_def field_def present_def handleAnalysisResult_def Let_def js_or_def
        showError_string visible_after_remove)

text \<open>
  C1, amended: the precedence is by truthiness. For a response that is not \<^verbatim>\<open>null\<close>:
  \<^item> when \<^verbatim>\<open>error\<close> is truthy the handler displays its string (the error itself when
    it is a string) and leaves the result region alone; when the value has no string (such as an
    object with a property \<^verbatim>\<open>toString\<close>) it throws a TypeError with only the loading
    indicator hidden;
  \<^item> otherwise, when \<^verbatim>\<open>success\<close> is falsy, it does the same with \<^verbatim>\<open>message\<close> when
    that is truthy, and displays the fixed text when it is not;
  \<^item> only otherwise does it go on to the rendering, and then it does not touch the error
    region, and when it returns it shows the result region with the template in it.
\<close>

theorem handler_precedence:
  assumes "present data"
  shows
    "(truthy (field data ''error'') \<longrightarrow>
        handleAnalysisResult data s =
          (if printable (field data ''error'')
           then (None, (hideLoading s)\<lparr>errorMessage_textContent :=
                           string_of (field data ''error''),
                         errorMessage_classList :=
                           classList_remove ''d-none'' (errorMessage_classList s)\<rparr>)
           else (Some TypeError, hideLoading s)))
     \<and> (\<not> truthy (field data ''error'') \<and> \<not> truthy (field data ''success'')
          \<and> truthy (field data ''message'') \<longrightarrow>
        handleAnalysisResult data s =
          (if printable (field data ''message'')
           then (None, (hideLoading s)\<lparr>errorMessage_textContent :=
                           string_of (field data ''message''),
                         errorMessage_classList :=
                           classList_remove ''d-none'' (errorMessage_classList s)\<rparr>)
           else (Some TypeError, hideLoading s)))
     \<and> (\<not> truthy (field data ''error'') \<and> \<not> truthy (field data ''success'')
          \<and> \<not> truthy (field data ''message'') \<longrightarrow>
        handleAnalysisResult data s =
          (None, (hideLoading s)\<lparr>errorMessage_textContent :=
                     ''An unknown error occurred during face analysis.'',
                   errorMessage_classList :=
                     classList_remove ''d-none'' (errorMessage_classList s)\<rparr>))
     \<and> (\<not> truthy (field data ''error'') \<and> truthy (field data ''success'') \<longrightarrow>
        errorMessage_textContent (snd (handleAnalysisResult data s)) = errorMessage_textContent s
        \<and> errorMessage_classList (snd (handleAnalysisResult data s)) = errorMessage_classList s
        \<and> (fst (handleAnalysisResult data s) = None \<longrightarrow>
             visible (resultContainer_classList (snd (handleAnalysisResult data s)))
             \<and> (\<exists>p. resultContainer_innerHTML (snd (handleAnalysisResult data s))
                      = result_template p)))
     \<and> printable (JStr e) \<and> string_of (JStr e) = e"
proof -
  have c1: "truthy (field data ''error'') \<longrightarrow>
        handleAnalysisResult data s =
          (if printable (field data ''error'')
           then (None, (hideLoading s)\<lparr>errorMessage_textContent :=
                           string_of (field data ''error''),
                         errorMessage_classList :=
                           classList_remove ''d-none'' (errorMessage_classList s)\<rparr>)
           else (Some TypeError, hideLoading s))"
    using handler_by_error [OF assms, of s]
    by (simp add: showError_printable showError_unprintable hideLoading_idem)
       (simp add: hideLoading_def)
  have c2: "\<not> truthy (field data ''error'') \<and> \<not> truthy (field data ''success'')
          \<and> truthy (field data ''message'') \<longrightarrow>
        handleAnalysisResult data s =
          (if printable (field data ''message'')
           then (None, (hideLoading s)\<lparr>errorMessage_textContent :=
                           string_of (field data ''message''),
                         errorMessage_classList :=
                           classList_remove ''d-none'' (errorMessage_classList s)\<rparr>)
           else (Some TypeError, hideLoading s))"
    using handler_by_message [OF assms, of s]
    by (simp add: js_or_def showError_printable showError_unprintable hideLoading_idem)
       (simp add: hideLoading_def)
  have c3: "\<not> truthy (field data ''error'') \<and> \<not> truthy (field data ''success'')
          \<and> \<not> truthy (field data ''message'') \<longrightarrow>
        handleAnalysisResult data s =
          (None, (hideLoading s)\<lparr>errorMessage_textContent :=
                     ''An unknown error occurred during face analysis.'',
                   errorMessage_classList :=
                     classList_remove ''d-none'' (errorMessage_classList s)\<rparr>)"
    using handler_by_message [OF assms, of s]
    by (simp add: js_or_def showError_string hideLoading_idem) (simp add: hideLoading_def)
  have c4: "\<not> truthy (field data ''error'') \<and> truthy (field data ''success'') \<longrightarrow>
        errorMessage_textContent (snd (handleAnalysisResult data s)) = errorMessage_textContent s
        \<and> errorMessage_classList (snd (handleAnalysisResult data s)) = errorMessage_classList s
        \<and> (fst (handleAnalysisResult data s) = None \<longrightarrow>
             visible (resultContainer_classList (snd (handleAnalysisResult data s)))
             \<and> (\<exists>p. resultContainer_innerHTML (snd (handleAnalysisResult data s))
                      = result_template p))"
  proof (cases "render_result data")
    case (Inl e)
    then show ?thesis
      by (auto simp: handler_on_success hideLoading_def)
  next
    case (Inr html)
    with render_result_template [OF Inr] show ?thesis
      by (auto simp: handler_on_success hideLoading_def visible_after_remove)
  qed
  have c5: "printable (JStr e) \<and> string_of (JStr e) = e"
    by (simp add: printable_def string_of_def)
  from c1 c2 c3 c4 c5 show ?thesis by blast
qed

theorem handler_precedence_witness:
  "errorMessage_textContent
     (snd (handleAnalysisResult
             (JObj [(''error'', JStr ''no face detected''), (''success'', JBool True)]) idle))
     = ''no face detected''
   \<and> visible (errorMessage_classList
        (snd (handleAnalysisResult
                (JObj [(''error'', JStr ''no face detected''), (''success'', JBool True)]) idle)))
   \<and> errorMessage_textContent
       (snd (handleAnalysisResult
               (JObj [(''success'', JBool False), (''message'', JStr ''Image too dark'')]) idle))
       = ''Image too dark''
   \<and> handleAnalysisResult unprintable_message idle = (Some TypeError, hideLoading idle)
   \<and> errorMessage_textContent
       (snd (handleAnalysisResult (JObj [(''success'', JBool False)]) idle))
       = ''An unknown error occurred during face analysis.''
   \<and> fst (handleAnalysisResult oval_response idle) = None
   \<and> \<not> visible (errorMessage_classList (snd (handleAnalysisResult oval_response idle)))
   \<and> visible (resultContainer_classList (snd (handleAnalysisResult oval_response idle)))"
proof -
  let ?e = "JObj [(''error'', JStr ''no face detected''), (''success'', JBool True)]"
  let ?m = "JObj [(''success'', JBool False), (''message'', JStr ''Image too dark'')]"
  let ?d = "JObj [(''success'', JBool False)]"
  have e: "errorMessage_textContent (snd (handleAnalysisResult ?e idle)) = ''no face detected''
           \<and> visible (errorMessage_classList (snd (handleAnalysisResult ?e idle)))"
    using handler_precedence [of ?e idle "''no face detected''"]
    by (simp add: present_def field_def printable_def string_of_def visible_after_remove)
  have m: "errorMessage_textContent (snd (handleAnalysisResult ?m idle)) = ''Image too dark''"
    using handler_precedence [of ?m idle "''Image too dark''"]
    by (simp add: present_def field_def printable_def string_of_def)
  have u: "handleAnalysisResult unprintable_message idle = (Some TypeError, hideLoading idle)"
    using handler_precedence [of unprintable_message idle "[]"]
    by (simp add: unprintable_message_def present_def field_def printable_def)
  have d: "errorMessage_textContent (snd (handleAnalysisResult ?d idle))
           = ''An unknown error occurred during face analysis.''"
    using handler_precedence [of ?d idle "[]"]
    by (simp add: present_def field_def)
  have returned: "fst (handleAnalysisResult oval_response idle) = None"
    by (simp add: handler_on_success [OF oval_is_success] render_oval)
  have hidden: "\<not> visible (errorMessage_classList idle)"
    by (simp add: idle_def visible_def)
  have o: "\<not> visible (errorMessage_classList (snd (handleAnalysisResult oval_response idle)))
           \<and> visible (resultContainer_classList (snd (handleAnalysisResult oval_response idle)))"
    using handler_precedence [OF truthy_field_present [OF oval_is_success(2)], of idle "[]"]
      oval_is_success returned hidden
    by simp
  from e m u d returned o show ?thesis by blast
qed

subsection \<open>What the rendering shows\<close>

text \<open>
  C2, as the spec states it, fails: the response \<^verbatim>\<open>{"success": true, "confidence": 0.873}\<close>
  has no \<^verbatim>\<open>error\<close> and a true \<^verbatim>\<open>success\<close>, and the handler throws before it
  writes anything: the result region stays hidden and empty.
\<close>

theorem success_without_label_not_rendered:
  "\<not> truthy (field bare_success ''error'')
   \<and> field bare_success ''success'' = JBool True
   \<and> fst (handleAnalysisResult bare_success idle) = Some TypeError
   \<and> resultContainer_innerHTML (snd (handleAnalysisResult bare_success idle)) = []
   \<and> \<not> visible (resultContainer_classList (snd (handleAnalysisResult bare_success idle)))"
proof -
  have "field bare_success ''success'' = JBool True"
    by (simp add: bare_success_def field_def)
  moreover have "resultContainer_innerHTML (hideLoading idle) = []"
    and "\<not> visible (resultContainer_classList (hideLoading idle))"
    by (simp_all add: hideLoading_def idle_def visible_def)
  ultimately show ?thesis
    using bare_is_success by (simp add: handler_on_success render_bare)
qed

text \<open>
  C2, amended: for a response with \<^verbatim>\<open>error\<close> falsy and \<^verbatim>\<open>success\<close> truthy whose
  \<^verbatim>\<open>face_shape\<close> is a string of ASCII characters, whose \<^verbatim>\<open>measurements\<close> is
  neither \<^verbatim>\<open>undefined\<close> nor \<^verbatim>\<open>null\<close>, whose image, description and five measurement
  fields have a string and whose \<^verbatim>\<open>confidence\<close> converts to a number \<open>c\<close>, the handler
  returns, shows the result region and writes the template into it with the label in upper
  case and the confidence as \<^verbatim>\<open>Math.round(c * 100)\<close>; the line of the label and the
  line of the confidence, with its percent sign, are in the text.
\<close>

theorem success_rendering:
  assumes "\<not> truthy (field data ''error'')" and "truthy (field data ''success'')"
    and "field data ''face_shape'' = JStr shape" and "ascii shape"
    and "present (field data ''measurements'')"
    and "list_all (\<lambda>k. printable (field data k)) [''image_with_landmarks'', ''description'']"
    and "list_all (\<lambda>k. printable (field (field data ''measurements'') k))
           [''face_height'', ''face_width_top'', ''face_width_middle'', ''face_width_bottom'',
            ''width_to_height_ratio'']"
    and "ToNumber (field data ''confidence'') = Inr c"
  shows
    \<open>fst (handleAnalysisResult data s) = None
     \<and> visible (resultContainer_classList (snd (handleAnalysisResult data s)))
     \<and> resultContainer_innerHTML (snd (handleAnalysisResult data s))
         = result_template
             \<lparr>p_image = string_of (field data ''image_with_landmarks''),
              p_label = toUpperCase shape,
              p_description = string_of (field data ''description''),
              p_face_height = string_of (field (field data ''measurements'') ''face_height''),
              p_face_width_top = string_of (field (field data ''measurements'') ''face_width_top''),
              p_face_width_middle =
                string_of (field (field data ''measurements'') ''face_width_middle''),
              p_face_width_bottom =
                string_of (field (field data ''measurements'') ''face_width_bottom''),
              p_ratio = string_of (field (field data ''measurements'') ''width_to_height_ratio''),
              p_confidence = Number_toString (Math_round (num_mul c (Fin 100)))\<rparr>
     \<and> sublist
         (''                            <h4 class="text-primary">Your Face Shape: <span class="badge bg-primary">''
          @ toUpperCase shape @ ''</span></h4>\<newline>'')
         (resultContainer_innerHTML (snd (handleAnalysisResult data s)))
     \<and> sublist
         (''                                <strong>Analysis Confidence:</strong> ''
          @ Number_toString (Math_round (num_mul c (Fin 100))) @ ''%\<newline>'')
         (resultContainer_innerHTML (snd (handleAnalysisResult data s)))\<close>
proof -
  let ?m = "field data ''measurements''"
  let ?p = "\<lparr>p_image = string_of (field data ''image_with_landmarks''),
              p_label = toUpperCase shape,
              p_description = string_of (field data ''description''),
              p_face_height = string_of (field ?m ''face_height''),
              p_face_width_top = string_of (field ?m ''face_width_top''),
              p_face_width_middle = string_of (field ?m ''face_width_middle''),
              p_face_width_bottom = string_of (field ?m ''face_width_bottom''),
              p_ratio = string_of (field ?m ''width_to_height_ratio''),
              p_confidence = Number_toString (Math_round (num_mul c (Fin 100)))\<rparr>"
  have get: "js_get data k = Inr (field data k)" for k
    by (rule js_get_present [OF truthy_field_present [OF assms(2)]])
  have get_m: "js_get ?m k = Inr (field ?m k)" for k
    by (rule js_get_present [OF assms(5)])
  have measure: "measurement data k = Inr (string_of (field ?m k))" if "printable (field ?m k)" for k
    using that by (simp add: measurement_def get get_m and_then_Inr_simp ToString_printable)
  have conf: "confidence_percent data = Inr (Number_toString (Math_round (num_mul c (Fin 100))))"
    by (simp add: confidence_percent_def get and_then_Inr_simp assms(8))
  have render: "render_result data = Inr (result_template ?p)"
    using assms(6,7)
    by (simp add: render_result_def get and_then_Inr_simp ToString_printable assms(3)
          call_toUpperCase_def measure conf)
  have html: "resultContainer_innerHTML (snd (handleAnalysisResult data s)) = result_template ?p"
    and ok: "fst (handleAnalysisResult data s) = None"
    and shown: "visible (resultContainer_classList (snd (handleAnalysisResult data s)))"
    by (simp_all add: handler_on_success [OF assms(1,2)] render visible_after_remove)
  have label: \<open>sublist
         (''                            <h4 class="text-primary">Your Face Shape: <span class="badge bg-primary">''
          @ toUpperCase shape @ ''</span></h4>\<newline>'')
         (result_template ?p)\<close>
    using template_label_line [of ?p] by simp
  have percent: \<open>sublist
         (''                                <strong>Analysis Confidence:</strong> ''
          @ Number_toString (Math_round (num_mul c (Fin 100))) @ ''%\<newline>'')
         (result_template ?p)\<close>
    using template_confidence_line [of ?p] by simp
  from ok shown html label percent show ?thesis
    by simp
qed

text \<open>The response of the spec's example: confidence 0.873 and the label \<^verbatim>\<open>oval\<close>.\<close>

theorem success_rendering_witness:
  \<open>\<not> truthy (field oval_response ''error'') \<and> truthy (field oval_response ''success'')
   \<and> field oval_response ''face_shape'' = JStr ''oval'' \<and> ascii ''oval''
   \<and> field oval_response ''confidence'' = JNum (fl (873 / 1000))
   \<and> fst (handleAnalysisResult oval_response idle) = None
   \<and> visible (resultContainer_classList (snd (handleAnalysisResult oval_response idle)))
   \<and> sublist
       (''                            <h4 class="text-primary">Your Face Shape: <span class="badge bg-primary">''
        @ ''OVAL'' @ ''</span></h4>\<newline>'')
       (resultContainer_innerHTML (snd (handleAnalysisResult oval_response idle)))
   \<and> sublist
       (''                                <strong>Analysis Confidence:</strong> ''
        @ ''87'' @ ''%\<newline>'')
       (resultContainer_innerHTML (snd (handleAnalysisResult oval_response idle)))\<close>
proof -
  have shape: "field oval_response ''face_shape'' = JStr ''oval''"
    and conf: "field oval_response ''confidence'' = JNum (fl (873 / 1000))"
    and ms: "present (field oval_response ''measurements'')"
    by (simp_all add: oval_response_def oval_fields_def field_def present_def)
  have plain: "ascii ''oval''"
    by (simp add: ascii_def code_def)
  have top: "list_all (\<lambda>k. printable (field oval_response k))
               [''image_with_landmarks'', ''description'']"
    by (simp add: oval_response_def oval_fields_def field_def printable_def)
  have inner: "list_all (\<lambda>k. printable (field (field oval_response ''measurements'') k))
           [''face_height'', ''face_width_top'', ''face_width_middle'', ''face_width_bottom'',
            ''width_to_height_ratio'']"
    by (simp add: oval_response_def oval_fields_def field_def printable_def)
  obtain c where c: "fl (873 / 1000) = c"
    by simp
  have number: "ToNumber (field oval_response ''confidence'') = Inr c"
    by (simp add: conf c)
  have upper: "toUpperCase ''oval'' = ''OVAL''"
    by code_simp
  have "confidence_percent oval_response = Inr ''87''"
    by code_simp
  then have percent: "Number_toString (Math_round (num_mul c (Fin 100))) = ''87''"
    by (simp add: confidence_percent_def oval_response_def oval_fields_def and_then_Inr_simp c)
  note w = success_rendering [OF oval_is_success shape plain ms top inner number, of idle]
  from w have ok: "fst (handleAnalysisResult oval_response idle) = None"
    and shown: "visible (resultContainer_classList (snd (handleAnalysisResult oval_response idle)))"
    by blast+
  from w have label: \<open>sublist
       (''                            <h4 class="text-primary">Your Face Shape: <span class="badge bg-primary">''
        @ toUpperCase ''oval'' @ ''</span></h4>\<newline>'')
       (resultContainer_innerHTML (snd (handleAnalysisResult oval_response idle)))\<close>
    by blast
  from w have line: \<open>sublist
       (''                                <strong>Analysis Confidence:</strong> ''
        @ Number_toString (Math_round (num_mul c (Fin 100))) @ ''%\<newline>'')
       (resultContainer_innerHTML (snd (handleAnalysisResult oval_response idle)))\<close>
    by blast
  from oval_is_success shape plain conf ok shown label [unfolded upper] line [unfolded percent]
  show ?thesis
    by (intro conjI)
qed

subsection \<open>Taking the photograph\<close>

lemma capturePhoto_value:
  "fst (capturePhoto s)
     = (if videoWidth s = 0 \<or> videoHeight s = 0 then ''data:,'' else video_frame s)"
  by (simp add: capturePhoto_def canvas_toDataURL_def Let_def)

text \<open>
  C6, as the spec states it, fails: \<^verbatim>\<open>capturePhoto\<close> has no test of the video's size
  and nothing in it fails. Right after the camera was granted the video reports 0 by 0;
  a click on the capture button then takes the empty data URL as the photograph, closes
  the camera, shows the loading indicator and sends it.
\<close>

theorem capture_without_frame_is_sent:
  "isCameraActive camera_just_opened
   \<and> videoWidth camera_just_opened = 0 \<and> videoHeight camera_just_opened = 0
   \<and> fst (capturePhoto camera_just_opened) = ''data:,''
   \<and> requests (step camera_just_opened CapturePhotoClick)
       = [\<lparr>url = ''/analyze'', http_method = ''POST'',
           headers = [(''Content-Type'', ''application/x-www-form-urlencoded'')],
           body = Text ''image_data=data%3A%2C''\<rparr>]
   \<and> visible (loadingSpinner_classList (step camera_just_opened CapturePhotoClick))"
  by code_simp

text \<open>
  C6, amended: taking the photograph never fails. For every state \<^verbatim>\<open>capturePhoto\<close>
  returns a string: the canvas's data URL, which is \<^verbatim>\<open>data:,\<close> when the video reports
  a zero width or height. With the camera active the capture listener sends that string,
  closes the camera and shows the loading indicator.
\<close>

theorem capturePhoto_never_fails:
  "fst (capturePhoto s)
     = (if videoWidth s = 0 \<or> videoHeight s = 0 then ''data:,'' else video_frame s)
   \<and> (isCameraActive s \<longrightarrow>
        requests (capturePhotoButton_click s)
          = requests s @ [\<lparr>url = ''/analyze'', http_method = ''POST'',
                            headers = [(''Content-Type'', ''application/x-www-form-urlencoded'')],
                            body = Text (''image_data=''
                                         @ encodeURIComponent (fst (capturePhoto s)))\<rparr>]
        \<and> in_flight (capturePhotoButton_click s) = Suc (in_flight s)
        \<and> visible (loadingSpinner_classList (capturePhotoButton_click s))
        \<and> \<not> isCameraActive (capturePhotoButton_click s)
        \<and> stream (capturePhotoButton_click s) = None
        \<and> \<not> visible (cameraContainer_classList (capturePhotoButton_click s)))"
proof -
  obtain photo s1 where c: "capturePhoto s = (photo, s1)"
    by (cases "capturePhoto s")
  then have s1: "requests s1 = requests s" "in_flight s1 = in_flight s"
    by (auto simp: capturePhoto_def Let_def)
  let ?s2 = "stopCamera s1"
  have stopped: "requests ?s2 = requests s1" "in_flight ?s2 = in_flight s1"
    "\<not> isCameraActive ?s2" "stream ?s2 = None"
    "\<not> visible (cameraContainer_classList ?s2)"
    by (simp_all add: stopCamera_def set_srcObject_def Let_def hidden_after_add split: option.split)
  have click: "isCameraActive s \<Longrightarrow>
         capturePhotoButton_click s = processImageData photo (showLoading ?s2)"
    by (simp add: capturePhotoButton_click_def c)
  have sent: "isCameraActive s \<longrightarrow>
        requests (capturePhotoButton_click s)
          = requests s @ [\<lparr>url = ''/analyze'', http_method = ''POST'',
                            headers = [(''Content-Type'', ''application/x-www-form-urlencoded'')],
                            body = Text (''image_data=''
                                         @ encodeURIComponent (fst (capturePhoto s)))\<rparr>]
        \<and> in_flight (capturePhotoButton_click s) = Suc (in_flight s)
        \<and> visible (loadingSpinner_classList (capturePhotoButton_click s))
        \<and> \<not> isCameraActive (capturePhotoButton_click s)
        \<and> stream (capturePhotoButton_click s) = None
        \<and> \<not> visible (cameraContainer_classList (capturePhotoButton_click s))"
    using stopped s1
    by (auto simp: click c processImageData_def fetch_def showLoading_def visible_after_remove)
  from capturePhoto_value sent show ?thesis by blast
qed

theorem capturePhoto_never_fails_witness:
  "isCameraActive camera_open
   \<and> videoWidth camera_open = 640 \<and> videoHeight camera_open = 480
   \<and> fst (capturePhoto camera_open) = sample_frame
   \<and> requests (capturePhotoButton_click camera_open)
       = [\<lparr>url = ''/analyze'', http_method = ''POST'',
           headers = [(''Content-Type'', ''application/x-www-form-urlencoded'')],
           body = Text ''image_data=data%3Aimage%2Fjpeg%3Bbase64%2C%2F9j%2F4AAQ%2BSk%3D''\<rparr>]
   \<and> in_flight (capturePhotoButton_click camera_open) = 1
   \<and> visible (loadingSpinner_classList (capturePhotoButton_click camera_open))
   \<and> \<not> isCameraActive (capturePhotoButton_click camera_open)
   \<and> \<not> visible (cameraContainer_classList (capturePhotoButton_click camera_open))"
proof -
  have cam: "isCameraActive camera_open"
    and size: "videoWidth camera_open = 640" "videoHeight camera_open = 480"
    and frame: "video_frame camera_open = sample_frame"
    and before: "requests camera_open = []" "in_flight camera_open = 0"
    by code_simp+
  have enc: "encodeURIComponent sample_frame
             = ''data%3Aimage%2Fjpeg%3Bbase64%2C%2F9j%2F4AAQ%2BSk%3D''"
    by code_simp
  note w = capturePhoto_never_fails [of camera_open]
  from w size frame have photo: "fst (capturePhoto camera_open) = sample_frame"
    by simp
  from w cam photo enc before size show ?thesis
    by simp
qed

subsection \<open>When a request ends\<close>

lemma showError_keeps:
  "requests (snd (showError v s)) = requests s"
  "in_flight (snd (showError v s)) = in_flight s"
  "cameraContainer_classList (snd (showError v s)) = cameraContainer_classList s"
  "resultContainer_classList (snd (showError v s)) = resultContainer_classList s"
  "\<not> visible (loadingSpinner_classList (snd (showError v s)))"
  by (simp_all add: showError_def Let_def hideLoading_def hidden_after_add split: sum.split)

lemma handler_keeps:
  "requests (snd (handleAnalysisResult data s)) = requests s"
  "in_flight (snd (handleAnalysisResult data s)) = in_flight s"
  "cameraContainer_classList (snd (handleAnalysisResult data s)) = cameraContainer_classList s"
  "\<not> visible (loadingSpinner_classList (snd (handleAnalysisResult data s)))"
  by (simp_all add: handleAnalysisResult_def Let_def showError_keeps
        split: sum.split)
     (simp_all add: hideLoading_def hidden_after_add)

lemma analysis_catch_shows:
  "visible (errorMessage_classList (analysis_catch e s))"
  "errorMessage_textContent (analysis_catch e s)
     = ''An error occurred while processing the image. Please try again.''"
  "\<not> visible (loadingSpinner_classList (analysis_catch e s))"
  "resultContainer_classList (analysis_catch e s) = resultContainer_classList s"
  "cameraContainer_classList (analysis_catch e s) = cameraContainer_classList s"
  "requests (analysis_catch e s) = requests s"
  "in_flight (analysis_catch e s) = in_flight s"
  "console (analysis_catch e s) = console s @ [(''Error:'', e)]"
  by (simp_all add: analysis_catch_def showError_string hideLoading_def
        hidden_after_add visible_after_remove)

lemma analysis_settled_unfold:
  "analysis_settled (Response status (Some data)) s
     = (case fst (handleAnalysisResult data s) of
          None \<Rightarrow> snd (handleAnalysisResult data s)
        | Some e \<Rightarrow> analysis_catch e (snd (handleAnalysisResult data s)))"
  by (simp add: analysis_settled_def split: prod.split option.split)

lemma analysis_settled_keeps:
  "requests (analysis_settled out s) = requests s
   \<and> in_flight (analysis_settled out s) = in_flight s
   \<and> cameraContainer_classList (analysis_settled out s) = cameraContainer_classList s
   \<and> \<not> visible (loadingSpinner_classList (analysis_settled out s))"
proof (cases out)
  case NetworkFailure
  then show ?thesis
    by (simp add: analysis_settled_def analysis_catch_shows)
next
  case (Response status parsed)
  show ?thesis
  proof (cases parsed)
    case None
    with Response show ?thesis
      by (simp add: analysis_settled_def analysis_catch_shows)
  next
    case (Some data)
    with Response show ?thesis
      by (cases "fst (handleAnalysisResult data s)")
         (simp_all add: analysis_settled_unfold analysis_catch_shows handler_keeps)
  qed
qed

lemma settled_oval:
  "analysis_settled (Response status (Some oval_response)) s =
     (hideLoading s)\<lparr>resultContainer_innerHTML :=
        result_template
          \<lparr>p_image = ''data:image/jpeg;base64,/9j/4AAQ'', p_label = ''OVAL'',
           p_description = ''Balanced proportions.'', p_face_height = ''212'',
           p_face_width_top = ''140'', p_face_width_middle = ''159'',
           p_face_width_bottom = ''121'', p_ratio = ''0.75'', p_confidence = ''87''\<rparr>,
        resultContainer_classList := classList_remove ''d-none'' (resultContainer_classList s),
        resultContainer_scrolls := Suc (resultContainer_scrolls s)\<rparr>"
  by (simp add: analysis_settled_def handler_on_success [OF oval_is_success] render_oval)

lemma uploading_state:
  "uploading = processImageFile portrait_png (showLoading idle)"
  by (simp add: uploading_def run_def imageUpload_change_def portrait_png_def)

text \<open>
  C5, as the spec states it, fails for a status outside 200 to 299: the status is never
  read. A response 500 whose body is an analysis is rendered like any other: the result
  region is shown, the error region is not, and nothing is written to the console.
\<close>

theorem status_500_is_rendered:
  "in_flight uploading = 1
   \<and> visible (resultContainer_classList
        (step uploading (FetchSettled (Response 500 (Some oval_response)))))
   \<and> \<not> visible (errorMessage_classList
        (step uploading (FetchSettled (Response 500 (Some oval_response)))))
   \<and> console (step uploading (FetchSettled (Response 500 (Some oval_response)))) = []"
  by (simp add: uploading_state settled_oval processImageFile_def fetch_def showLoading_def
        hideLoading_def idle_def visible_after_remove hidden_after_add)

text \<open>
  C5, amended: when \<^verbatim>\<open>fetch\<close> rejects or the body is not JSON, the catch handler logs
  the error and shows the message of the transport failure, with the loading indicator
  hidden; no outcome of a request makes the script send another one; and the status of a
  response changes nothing: a body is handled the same under every status.
\<close>

theorem transport_failure_shown:
  "(out = NetworkFailure \<or> out = Response status None \<longrightarrow>
      visible (errorMessage_classList (analysis_settled out s))
      \<and> errorMessage_textContent (analysis_settled out s)
          = ''An error occurred while processing the image. Please try again.''
      \<and> \<not> visible (loadingSpinner_classList (analysis_settled out s))
      \<and> console (analysis_settled out s)
          = console s @ [(''Error:'', if out = NetworkFailure then TypeError else SyntaxError)])
   \<and> requests (analysis_settled out s) = requests s
   \<and> in_flight (analysis_settled out s) = in_flight s
   \<and> requests (step s (FetchSettled out)) = requests s
   \<and> in_flight (step s (FetchSettled out)) \<le> in_flight s
   \<and> analysis_settled (Response status parsed) s = analysis_settled (Response 200 parsed) s"
proof -
  have failed: "out = NetworkFailure \<or> out = Response status None \<longrightarrow>
      visible (errorMessage_classList (analysis_settled out s))
      \<and> errorMessage_textContent (analysis_settled out s)
          = ''An error occurred while processing the image. Please try again.''
      \<and> \<not> visible (loadingSpinner_classList (analysis_settled out s))
      \<and> console (analysis_settled out s)
          = console s @ [(''Error:'', if out = NetworkFailure then TypeError else SyntaxError)]"
    by (auto simp: analysis_settled_def analysis_catch_shows)
  have stepped: "requests (step s (FetchSettled out)) = requests s"
    "in_flight (step s (FetchSettled out)) \<le> in_flight s"
    by (simp_all add: analysis_settled_keeps)
  have status: "analysis_settled (Response status parsed) s = analysis_settled (Response 200 parsed) s"
    by (simp add: analysis_settled_def)
  from failed stepped status analysis_settled_keeps [of out s] show ?thesis
    by blast
qed

theorem transport_failure_shown_witness:
  "errorMessage_textContent (analysis_settled NetworkFailure uploading)
     = ''An error occurred while processing the image. Please try again.''
   \<and> visible (errorMessage_classList (analysis_settled NetworkFailure uploading))
   \<and> console (analysis_settled NetworkFailure uploading) = [(''Error:'', TypeError)]
   \<and> length (requests (analysis_settled NetworkFailure uploading)) = 1
   \<and> errorMessage_textContent (analysis_settled (Response 502 None) uploading)
       = ''An error occurred while processing the image. Please try again.''
   \<and> visible (errorMessage_classList (analysis_settled (Response 502 None) uploading))
   \<and> console (analysis_settled (Response 502 None) uploading) = [(''Error:'', SyntaxError)]
   \<and> length (requests (analysis_settled (Response 502 None) uploading)) = 1"
proof -
  have before: "console uploading = []" "length (requests uploading) = 1"
    by (simp_all add: uploading_state processImageFile_def fetch_def showLoading_def idle_def)
  note net = transport_failure_shown [of NetworkFailure 0 uploading None, THEN conjunct1]
  note bad = transport_failure_shown [of "Response 502 None" 502 uploading None, THEN conjunct1]
  note kept = analysis_settled_keeps [of _ uploading, THEN conjunct1]
  from net have n: "visible (errorMessage_classList (analysis_settled NetworkFailure uploading))"
    "errorMessage_textContent (analysis_settled NetworkFailure uploading)
       = ''An error occurred while processing the image. Please try again.''"
    "console (analysis_settled NetworkFailure uploading) = console uploading @ [(''Error:'', TypeError)]"
    by simp_all
  from bad have b: "visible (errorMessage_classList (analysis_settled (Response 502 None) uploading))"
    "errorMessage_textContent (analysis_settled (Response 502 None) uploading)
       = ''An error occurred while processing the image. Please try again.''"
    "console (analysis_settled (Response 502 None) uploading)
       = console uploading @ [(''Error:'', SyntaxError)]"
    by simp_all
  from n b before kept show ?thesis
    by simp
qed

subsection \<open>Which regions are shown\<close>

lemma showError_regions:
  "fst (showError v s) = Some e \<Longrightarrow>
     errorMessage_classList (snd (showError v s)) = errorMessage_classList s"
  "fst (showError v s) = None \<Longrightarrow> visible (errorMessage_classList (snd (showError v s)))"
  by (auto simp: showError_def Let_def hideLoading_def visible_after_remove split: sum.splits)

lemma handler_threw:
  assumes "fst (handleAnalysisResult data s) = Some e"
  shows "resultContainer_classList (snd (handleAnalysisResult data s)) = resultContainer_classList s
         \<and> errorMessage_classList (snd (handleAnalysisResult data s)) = errorMessage_classList s"
  using assms showError_regions(1) [of _ "hideLoading s" e]
  by (auto simp: handleAnalysisResult_def Let_def showError_keeps hideLoading_def
        split: sum.splits if_splits)

lemma handler_returned:
  assumes "fst (handleAnalysisResult data s) = None"
  shows "(visible (errorMessage_classList (snd (handleAnalysisResult data s)))
          \<and> resultContainer_classList (snd (handleAnalysisResult data s))
              = resultContainer_classList s)
         \<or> (visible (resultContainer_classList (snd (handleAnalysisResult data s)))
             \<and> errorMessage_classList (snd (handleAnalysisResult data s))
                 = errorMessage_classList s)"
  using assms showError_regions(2) [of _ "hideLoading s"]
  by (auto simp: handleAnalysisResult_def Let_def showError_keeps hideLoading_def
        visible_after_remove split: sum.splits if_splits)

text \<open>A request that ends on a page showing neither region leaves exactly one of them shown.\<close>

lemma settled_exactly_one:
  assumes "\<not> visible (resultContainer_classList s)" and "\<not> visible (errorMessage_classList s)"
  shows "visible (resultContainer_classList (analysis_settled out s))
         \<noteq> visible (errorMessage_classList (analysis_settled out s))"
proof (cases out)
  case NetworkFailure
  with assms show ?thesis
    by (simp add: analysis_settled_def analysis_catch_shows)
next
  case (Response status parsed)
  show ?thesis
  proof (cases parsed)
    case None
    with Response assms show ?thesis
      by (simp add: analysis_settled_def analysis_catch_shows)
  next
    case (Some data)
    show ?thesis
    proof (cases "fst (handleAnalysisResult data s)")
      case None
      with handler_returned [OF None] Response Some assms show ?thesis
        by (auto simp: analysis_settled_unfold)
    next
      case (Some e)
      with handler_threw [OF Some] Response \<open>parsed = Some data\<close> assms show ?thesis
        by (simp add: analysis_settled_unfold analysis_catch_shows)
    qed
  qed
qed

lemma showLoading_regions:
  "\<not> visible (resultContainer_classList (showLoading s))"
  "\<not> visible (errorMessage_classList (showLoading s))"
  "cameraContainer_classList (showLoading s) = cameraContainer_classList s"
  by (simp_all add: showLoading_def hidden_after_add)

lemma after_upload:
  assumes "match_image (file_type f)"
  shows "run s [Change (f # fs), FetchSettled out]
         = analysis_settled out ((showLoading s)\<lparr>requests := requests s @
             [\<lparr>url = ''/analyze'', http_method = ''POST'', headers = [],
               body = FormData [(''image'', f)]\<rparr>]\<rparr>)"
  using assms
  by (simp add: run_def imageUpload_change_def processImageFile_def fetch_def showLoading_def)

lemma after_capture:
  assumes "isCameraActive s"
  shows "\<exists>s1. run s [CapturePhotoClick, FetchSettled out] = analysis_settled out s1
           \<and> \<not> visible (resultContainer_classList s1) \<and> \<not> visible (errorMessage_classList s1)
           \<and> \<not> visible (cameraContainer_classList s1)"
proof -
  obtain photo s0 where c: "capturePhoto s = (photo, s0)"
    by (cases "capturePhoto s")
  let ?s1 = "(showLoading (stopCamera s0))\<lparr>requests := requests (showLoading (stopCamera s0)) @
               [\<lparr>url = ''/analyze'', http_method = ''POST'',
                 headers = [(''Content-Type'', ''application/x-www-form-urlencoded'')],
                 body = Text (''image_data='' @ encodeURIComponent photo)\<rparr>]\<rparr>"
  have hidden: "\<not> visible (cameraContainer_classList (stopCamera s0))"
    by (simp add: stopCamera_def set_srcObject_def Let_def hidden_after_add split: option.split)
  have "run s [CapturePhotoClick, FetchSettled out] = analysis_settled out ?s1"
    using assms by (simp add: run_def capturePhotoButton_click_def c processImageData_def fetch_def)
  moreover have "\<not> visible (resultContainer_classList ?s1)"
    "\<not> visible (errorMessage_classList ?s1)" "\<not> visible (cameraContainer_classList ?s1)"
    using hidden by (simp_all add: showLoading_regions)
  ultimately show ?thesis by blast
qed

lemma camera_failure_regions:
  "visible (errorMessage_classList (getUserMedia_catch e s))"
  "\<not> visible (loadingSpinner_classList (getUserMedia_catch e s))"
  "resultContainer_classList (getUserMedia_catch e s) = resultContainer_classList s"
  "cameraContainer_classList (getUserMedia_catch e s) = cameraContainer_classList s"
  by (simp_all add: getUserMedia_catch_def showError_string hideLoading_def
        hidden_after_add visible_after_remove)

text \<open>
  C4, as the spec states it, fails: \<^verbatim>\<open>showError\<close> does not hide the result region.
  After an analysis was shown, a click on the camera button and a refusal of the camera
  leave the result region and the error region both visible.
\<close>

theorem result_and_error_both_shown:
  "visible (resultContainer_classList camera_refused_after_result)
   \<and> visible (errorMessage_classList camera_refused_after_result)
   \<and> \<not> visible (loadingSpinner_classList camera_refused_after_result)
   \<and> \<not> visible (cameraContainer_classList camera_refused_after_result)"
proof -
  let ?shown = "run idle [Change [portrait_png], FetchSettled (Response 200 (Some oval_response))]"
  have img: "match_image (file_type portrait_png)"
    by (simp add: portrait_png_def)
  have shown: "visible (resultContainer_classList ?shown)" "\<not> isCameraActive ?shown"
    "mediaDevices_supported ?shown"
    by (simp_all add: after_upload [OF img] settled_oval visible_after_remove hideLoading_def
          showLoading_def idle_def)
  have "cameraContainer_classList ?shown = [''d-none'']"
    by (simp add: after_upload [OF img] settled_oval hideLoading_def showLoading_def idle_def)
  then have camera: "\<not> visible (cameraContainer_classList ?shown)"
    by (simp add: visible_def)
  have refused: "camera_refused_after_result
        = getUserMedia_catch (DOMException ''NotAllowedError'')
            ((step ?shown CaptureButtonClick)\<lparr>camera_prompts :=
               camera_prompts (step ?shown CaptureButtonClick) - 1\<rparr>)"
    using shown by (simp add: camera_refused_after_result_def run_def captureButton_click_def
          startCamera_def)
  from shown camera show ?thesis
    unfolding refused
    by (simp add: captureButton_click_def startCamera_def camera_failure_regions)
qed

text \<open>
  C4, amended: a request that was sent from the loading state and ends with nothing in
  between (an analysis, an error the service reports, a transport failure) leaves exactly
  one of the result and the error region shown and the loading indicator hidden; the camera
  region is hidden after a capture and is as it was after an upload. A camera that cannot
  be opened shows the error region and hides the loading indicator, and leaves the result
  region and the camera region as they were.
\<close>

theorem settled_regions:
  "(match_image (file_type f) \<longrightarrow>
      visible (resultContainer_classList (run s [Change (f # fs), FetchSettled out]))
        \<noteq> visible (errorMessage_classList (run s [Change (f # fs), FetchSettled out]))
      \<and> \<not> visible (loadingSpinner_classList (run s [Change (f # fs), FetchSettled out]))
      \<and> cameraContainer_classList (run s [Change (f # fs), FetchSettled out])
          = cameraContainer_classList s)
   \<and> (isCameraActive s \<longrightarrow>
      visible (resultContainer_classList (run s [CapturePhotoClick, FetchSettled out]))
        \<noteq> visible (errorMessage_classList (run s [CapturePhotoClick, FetchSettled out]))
      \<and> \<not> visible (loadingSpinner_classList (run s [CapturePhotoClick, FetchSettled out]))
      \<and> \<not> visible (cameraContainer_classList (run s [CapturePhotoClick, FetchSettled out])))
   \<and> (0 < camera_prompts s \<longrightarrow>
      visible (errorMessage_classList (step s (CameraDenied e)))
      \<and> \<not> visible (loadingSpinner_classList (step s (CameraDenied e)))
      \<and> resultContainer_classList (step s (CameraDenied e)) = resultContainer_classList s
      \<and> cameraContainer_classList (step s (CameraDenied e)) = cameraContainer_classList s)
   \<and> (\<not> isCameraActive s \<and> \<not> mediaDevices_supported s \<longrightarrow>
      visible (errorMessage_classList (step s CaptureButtonClick))
      \<and> \<not> visible (loadingSpinner_classList (step s CaptureButtonClick))
      \<and> resultContainer_classList (step s CaptureButtonClick) = resultContainer_classList s
      \<and> cameraContainer_classList (step s CaptureButtonClick) = cameraContainer_classList s)"
proof -
  have upload: "match_image (file_type f) \<longrightarrow>
      visible (resultContainer_classList (run s [Change (f # fs), FetchSettled out]))
        \<noteq> visible (errorMessage_classList (run s [Change (f # fs), FetchSettled out]))
      \<and> \<not> visible (loadingSpinner_classList (run s [Change (f # fs), FetchSettled out]))
      \<and> cameraContainer_classList (run s [Change (f # fs), FetchSettled out])
          = cameraContainer_classList s"
  proof
    assume img: "match_image (file_type f)"
    let ?s1 = "(showLoading s)\<lparr>requests := requests s @
             [\<lparr>url = ''/analyze'', http_method = ''POST'', headers = [],
               body = FormData [(''image'', f)]\<rparr>]\<rparr>"
    have "\<not> visible (resultContainer_classList ?s1)" "\<not> visible (errorMessage_classList ?s1)"
      by (simp_all add: showLoading_regions)
    from settled_exactly_one [OF this] analysis_settled_keeps [of out ?s1]
    show "visible (resultContainer_classList (run s [Change (f # fs), FetchSettled out]))
        \<noteq> visible (errorMessage_classList (run s [Change (f # fs), FetchSettled out]))
      \<and> \<not> visible (loadingSpinner_classList (run s [Change (f # fs), FetchSettled out]))
      \<and> cameraContainer_classList (run s [Change (f # fs), FetchSettled out])
          = cameraContainer_classList s"
      by (simp add: after_upload [OF img] showLoading_regions)
  qed
  have capture: "isCameraActive s \<longrightarrow>
      visible (resultContainer_classList (run s [CapturePhotoClick, FetchSettled out]))
        \<noteq> visible (errorMessage_classList (run s [CapturePhotoClick, FetchSettled out]))
      \<and> \<not> visible (loadingSpinner_classList (run s [CapturePhotoClick, FetchSettled out]))
      \<and> \<not> visible (cameraContainer_classList (run s [CapturePhotoClick, FetchSettled out]))"
  proof
    assume "isCameraActive s"
    from after_capture [OF this, of out] obtain s1 where
      s1: "run s [CapturePhotoClick, FetchSettled out] = analysis_settled out s1"
      "\<not> visible (resultContainer_classList s1)" "\<not> visible (errorMessage_classList s1)"
      "\<not> visible (cameraContainer_classList s1)"
      by blast
    from settled_exactly_one [OF s1(2,3)] analysis_settled_keeps [of out s1] s1(4)
    show "visible (resultContainer_classList (run s [CapturePhotoClick, FetchSettled out]))
        \<noteq> visible (errorMessage_classList (run s [CapturePhotoClick, FetchSettled out]))
      \<and> \<not> visible (loadingSpinner_classList (run s [CapturePhotoClick, FetchSettled out]))
      \<and> \<not> visible (cameraContainer_classList (run s [CapturePhotoClick, FetchSettled out]))"
      by (simp add: s1(1))
  qed
  have denied: "0 < camera_prompts s \<longrightarrow>
      visible (errorMessage_classList (step s (CameraDenied e)))
      \<and> \<not> visible (loadingSpinner_classList (step s (CameraDenied e)))
      \<and> resultContainer_classList (step s (CameraDenied e)) = resultContainer_classList s
      \<and> cameraContainer_classList (step s (CameraDenied e)) = cameraContainer_classList s"
    by (simp add: camera_failure_regions)
  have unsupported: "\<not> isCameraActive s \<and> \<not> mediaDevices_supported s \<longrightarrow>
      visible (errorMessage_classList (step s CaptureButtonClick))
      \<and> \<not> visible (loadingSpinner_classList (step s CaptureButtonClick))
      \<and> resultContainer_classList (step s CaptureButtonClick) = resultContainer_classList s
      \<and> cameraContainer_classList (step s CaptureButtonClick) = cameraContainer_classList s"
    by (simp add: captureButton_click_def startCamera_def showError_string hideLoading_def
          hidden_after_add visible_after_remove)
  from upload capture denied unsupported show ?thesis
    by blast
qed

theorem settled_regions_witness:
  "match_image (file_type portrait_png)
   \<and> visible (resultContainer_classList
        (run idle [Change [portrait_png], FetchSettled (Response 200 (Some oval_response))]))
   \<and> \<not> visible (errorMessage_classList
        (run idle [Change [portrait_png], FetchSettled (Response 200 (Some oval_response))]))
   \<and> \<not> visible (loadingSpinner_classList
        (run idle [Change [portrait_png], FetchSettled (Response 200 (Some oval_response))]))
   \<and> isCameraActive camera_open
   \<and> visible (errorMessage_classList (run camera_open [CapturePhotoClick, FetchSettled NetworkFailure]))
   \<and> \<not> visible (resultContainer_classList
        (run camera_open [CapturePhotoClick, FetchSettled NetworkFailure]))
   \<and> \<not> visible (cameraContainer_classList
        (run camera_open [CapturePhotoClick, FetchSettled NetworkFailure]))
   \<and> 0 < camera_prompts (step idle CaptureButtonClick)
   \<and> visible (errorMessage_classList
        (step (step idle CaptureButtonClick) (CameraDenied (DOMException ''NotFoundError''))))
   \<and> \<not> visible (resultContainer_classList
        (step (step idle CaptureButtonClick) (CameraDenied (DOMException ''NotFoundError''))))
   \<and> \<not> mediaDevices_supported (idle\<lparr>mediaDevices_supported := False\<rparr>)
   \<and> visible (errorMessage_classList
        (step (idle\<lparr>mediaDevices_supported := False\<rparr>) CaptureButtonClick))"
proof -
  let ?up = "run idle [Change [portrait_png], FetchSettled (Response 200 (Some oval_response))]"
  let ?shot = "run camera_open [CapturePhotoClick, FetchSettled NetworkFailure]"
  let ?asked = "step idle CaptureButtonClick"
  let ?old = "idle\<lparr>mediaDevices_supported := False\<rparr>"
  have img: "match_image (file_type portrait_png)"
    by (simp add: portrait_png_def)
  have cam: "isCameraActive camera_open"
    by code_simp
  have asked: "0 < camera_prompts ?asked" "resultContainer_classList ?asked = [''d-none'']"
    by (simp_all add: captureButton_click_def startCamera_def idle_def)
  have old: "\<not> isCameraActive ?old \<and> \<not> mediaDevices_supported ?old"
    by (simp add: idle_def)
  note w1 = settled_regions [of portrait_png idle "[]" "Response 200 (Some oval_response)",
      THEN conjunct1]
  note w2 = settled_regions [of _ camera_open _ NetworkFailure, THEN conjunct2, THEN conjunct1]
  note w3 = settled_regions [of _ ?asked _ _ "DOMException ''NotFoundError''",
      THEN conjunct2, THEN conjunct2, THEN conjunct1]
  note w4 = settled_regions [of _ ?old, THEN conjunct2, THEN conjunct2, THEN conjunct2]
  have up_shown: "visible (resultContainer_classList ?up)"
    by (simp add: after_upload [OF img] settled_oval visible_after_remove)
  have shot_error: "visible (errorMessage_classList ?shot)"
    using after_capture [OF cam, of NetworkFailure]
    by (auto simp: analysis_settled_def analysis_catch_shows)
  from w1 img up_shown have up: "\<not> visible (errorMessage_classList ?up)"
    "\<not> visible (loadingSpinner_classList ?up)"
    by simp_all
  from w2 cam shot_error have shot: "\<not> visible (resultContainer_classList ?shot)"
    "\<not> visible (cameraContainer_classList ?shot)"
    by simp_all
  from w3 asked have refused:
    "visible (errorMessage_classList (step ?asked (CameraDenied (DOMException ''NotFoundError''))))"
    "\<not> visible (resultContainer_classList
          (step ?asked (CameraDenied (DOMException ''NotFoundError''))))"
    by (simp_all add: visible_def)
  from w4 old have unsupported: "visible (errorMessage_classList (step ?old CaptureButtonClick))"
    by simp
  from img up_shown up cam shot_error shot asked(1) refused old unsupported show ?thesis
    by blast
qed

end
